theory Spec2Isabelle
  imports Main "HOL-Library.Monad_Syntax"
begin

section \<open>Python values shared by the three engines\<close>

text \<open>
  The engines are the classes \<^verbatim>\<open>TetrisGame\<close>, \<^verbatim>\<open>SnakeGame\<close> and \<^verbatim>\<open>PingPongGame\<close>
  of \<^verbatim>\<open>games/tetris.py\<close>, \<^verbatim>\<open>games/snake.py\<close> and \<^verbatim>\<open>games/ping_pong.py\<close>. A method
  that mutates \<^verbatim>\<open>self\<close> takes the engine and returns the updated engine; a method that
  can raise returns \<open>py_error + _\<close> with \<open>Inl\<close> for the exception.
\<close>

datatype py_error = IndexError | ZeroDivisionError

text \<open>
  Python's module-level random generator is an infinite sequence of raw draws that have
  not been made yet: \<open>r 0\<close> is the next one. \<^verbatim>\<open>random.choice(seq)\<close> and
  \<^verbatim>\<open>random.randint(a, b)\<close> each consume one draw and reduce it into their range, so every
  outcome of the range can occur and no other.
\<close>

type_synonym rng = "nat \<Rightarrow> nat"

definition rng_next :: "rng \<Rightarrow> rng" where
  "rng_next r = (\<lambda>n. r (Suc n))"

definition choice :: "'a list \<Rightarrow> rng \<Rightarrow> 'a \<times> rng" where
  "choice xs r = (xs ! (r 0 mod length xs), rng_next r)"

definition randint :: "int \<Rightarrow> int \<Rightarrow> rng \<Rightarrow> int \<times> rng" where
  "randint a b r = (a + int (r 0 mod nat (b - a + 1)), rng_next r)"

text \<open>The dictionaries the methods return: \<^verbatim>\<open>success\<close>, \<^verbatim>\<open>message\<close>, and the integer
  entries some methods add (\<^verbatim>\<open>turn\<close>, \<^verbatim>\<open>lines_cleared\<close>, \<^verbatim>\<open>score_gained\<close>).\<close>

record result =
  success :: bool
  message :: string
  extras :: "(string \<times> int) list"

definition reply :: "bool \<Rightarrow> string \<Rightarrow> result" where
  "reply ok msg = \<lparr>success = ok, message = msg, extras = []\<rparr>"

text \<open>\<^verbatim>\<open>str(n)\<close> of an integer, as the f-strings of the messages format it.\<close>

definition digit_char :: "nat \<Rightarrow> char" where
  "digit_char d = ''0123456789'' ! d"

function str_nat :: "nat \<Rightarrow> string" where
  "str_nat n = (if n < 10 then [digit_char n] else str_nat (n div 10) @ [digit_char (n mod 10)])"
  by pat_completeness auto
termination
  by (relation "measure id") auto

declare str_nat.simps [simp del]

definition py_str :: "int \<Rightarrow> string" where
  "py_str i = (if i < 0 then CHR ''-'' # str_nat (nat (- i)) else str_nat (nat i))"

section \<open>JSON documents\<close>

text \<open>
  \<^verbatim>\<open>to_json\<close> ends in \<^verbatim>\<open>json.dumps(state)\<close> and \<^verbatim>\<open>from_json\<close> starts with
  \<^verbatim>\<open>json.loads(json_str)\<close>. The document is modelled by its value tree. JSON has one kind
  of array: \<^verbatim>\<open>json.dumps\<close> writes a Python tuple and a Python list alike as an array, and
  \<^verbatim>\<open>json.loads\<close> reads every array back as a list.
\<close>

datatype json =
    JNull
  | JBool bool
  | JInt int
  | JStr string
  | JArr "json list"
  | JObj "(string \<times> json) list"

text \<open>\<^verbatim>\<open>state[key]\<close> and the shapes the attributes have; \<open>None\<close> is a document that
  \<^verbatim>\<open>to_json\<close> does not write (a missing key, or a value of another shape).\<close>

fun field :: "json \<Rightarrow> string \<Rightarrow> json option" where
  "field (JObj kvs) k = map_of kvs k"
| "field _ k = None"

fun as_int :: "json \<Rightarrow> int option" where
  "as_int (JInt i) = Some i"
| "as_int _ = None"

fun as_bool :: "json \<Rightarrow> bool option" where
  "as_bool (JBool b) = Some b"
| "as_bool _ = None"

fun as_str :: "json \<Rightarrow> string option" where
  "as_str (JStr s) = Some s"
| "as_str _ = None"

fun as_opt_int :: "json \<Rightarrow> int option option" where
  "as_opt_int JNull = Some None"
| "as_opt_int (JInt i) = Some (Some i)"
| "as_opt_int _ = None"

fun as_list :: "(json \<Rightarrow> 'a option) \<Rightarrow> json \<Rightarrow> 'a list option" where
  "as_list f (JArr xs) = those (map f xs)"
| "as_list f _ = None"

fun as_char :: "json \<Rightarrow> char option" where
  "as_char (JStr [c]) = Some c"
| "as_char _ = None"

fun as_pair :: "json \<Rightarrow> (int \<times> int) option" where
  "as_pair (JArr [JInt a, JInt b]) = Some (a, b)"
| "as_pair _ = None"

definition opt_int_json :: "int option \<Rightarrow> json" where
  "opt_int_json w = (case w of None \<Rightarrow> JNull | Some i \<Rightarrow> JInt i)"

definition pair_json :: "int \<times> int \<Rightarrow> json" where
  "pair_json p = JArr [JInt (fst p), JInt (snd p)]"

text \<open>The attributes the three classes have in common.\<close>

record game_core =
  session_id :: string
  player1_id :: int
  player2_id :: int
  player1_score :: int
  player2_score :: int
  game_over :: bool
  winner :: "int option"

section \<open>The Tetris engine\<close>

type_synonym board = "char list list"
type_synonym shape = "string list"

record piece =
  ptype :: char
  shapes :: "shape list"

definition PIECES :: "(char \<times> shape list) list" where
  "PIECES =
    [(CHR ''I'', [[''....'', ''####'', ''....'', ''....''],
                  [''..#.'', ''..#.'', ''..#.'', ''..#.''],
                  [''....'', ''####'', ''....'', ''....''],
                  [''..#.'', ''..#.'', ''..#.'', ''..#.'']]),
     (CHR ''O'', [[''....'', ''.##.'', ''.##.'', ''....'']]),
     (CHR ''T'', [[''....'', ''.#..'', ''###.'', ''....''],
                  [''....'', ''.#..'', ''.##.'', ''.#..''],
                  [''....'', ''....'', ''###.'', ''.#..''],
                  [''....'', ''.#..'', ''##..'', ''.#..'']]),
     (CHR ''S'', [[''....'', ''.##.'', ''##..'', ''....''],
                  [''....'', ''.#..'', ''.##.'', ''..#.'']]),
     (CHR ''Z'', [[''....'', ''##..'', ''.##.'', ''....''],
                  [''....'', ''..#.'', ''.##.'', ''.#..'']]),
     (CHR ''J'', [[''....'', ''.#..'', ''.#..'', ''##..''],
                  [''....'', ''....'', ''#...'', ''###.''],
                  [''....'', ''.##.'', ''.#..'', ''.#..''],
                  [''....'', ''....'', ''###.'', ''..#.'']]),
     (CHR ''L'', [[''....'', ''.#..'', ''.#..'', ''.##.''],
                  [''....'', ''....'', ''###.'', ''#...''],
                  [''....'', ''##..'', ''.#..'', ''.#..''],
                  [''....'', ''....'', ''..#.'', ''###.'']])]"

definition board_width :: int where "board_width = 10"
definition board_height :: int where "board_height = 20"

record tetris_game = game_core +
  player1_board :: board
  player2_board :: board
  player1_lines_cleared :: int
  player2_lines_cleared :: int
  player1_level :: int
  player2_level :: int
  player1_current_piece :: piece
  player2_current_piece :: piece
  player1_next_piece :: piece
  player2_next_piece :: piece
  player1_piece_pos :: "int \<times> int"
  player2_piece_pos :: "int \<times> int"
  player1_piece_rotation :: int
  player2_piece_rotation :: int

definition get_random_piece :: "rng \<Rightarrow> piece \<times> rng" where
  "get_random_piece r =
     (let (piece_type, r') = choice (map fst PIECES) r
      in (\<lparr>ptype = piece_type, shapes = the (map_of PIECES piece_type)\<rparr>, r'))"

definition empty_row :: "char list" where
  "empty_row = replicate (nat board_width) (CHR ''.'')"

definition empty_board :: board where
  "empty_board = replicate (nat board_height) empty_row"

definition reset_game_tetris :: "string \<Rightarrow> int \<Rightarrow> int \<Rightarrow> rng \<Rightarrow> tetris_game \<times> rng" where
  "reset_game_tetris sid p1 p2 r =
     (let (c1, r1) = get_random_piece r;
          (c2, r2) = get_random_piece r1;
          (n1, r3) = get_random_piece r2;
          (n2, r4) = get_random_piece r3
      in (\<lparr>session_id = sid, player1_id = p1, player2_id = p2,
            player1_score = 0, player2_score = 0, game_over = False, winner = None,
            player1_board = empty_board, player2_board = empty_board,
            player1_lines_cleared = 0, player2_lines_cleared = 0,
            player1_level = 1, player2_level = 1,
            player1_current_piece = c1, player2_current_piece = c2,
            player1_next_piece = n1, player2_next_piece = n2,
            player1_piece_pos = (0, 4), player2_piece_pos = (0, 4),
            player1_piece_rotation = 0, player2_piece_rotation = 0\<rparr>, r4))"

text \<open>\<^verbatim>\<open>shapes[rotation % len(shapes)]\<close>: the modulo raises on an empty table; otherwise the
  index is in range, also for a negative rotation.\<close>

definition get_piece_shape :: "piece \<Rightarrow> int \<Rightarrow> py_error + shape" where
  "get_piece_shape p rotation =
     (if shapes p = [] then Inl ZeroDivisionError
      else Inr (shapes p ! nat (rotation mod int (length (shapes p)))))"

text \<open>The cells a shape occupies at a position, in the order the two nested
  \<^verbatim>\<open>enumerate\<close> loops visit them.\<close>

definition shape_cells :: "shape \<Rightarrow> int \<times> int \<Rightarrow> (int \<times> int) list" where
  "shape_cells sh pos =
     [(fst pos + int i, snd pos + int j).
        (i, line) \<leftarrow> enumerate 0 sh, (j, cell) \<leftarrow> enumerate 0 line, cell = CHR ''#'']"

text \<open>\<^verbatim>\<open>board[new_row][new_col]\<close> for indices that are not negative.\<close>

definition cell_at :: "board \<Rightarrow> int \<Rightarrow> int \<Rightarrow> py_error + char" where
  "cell_at b row col =
     (if nat row < length b \<and> nat col < length (b ! nat row)
      then Inr (b ! nat row ! nat col) else Inl IndexError)"

fun check_cells :: "board \<Rightarrow> (int \<times> int) list \<Rightarrow> py_error + bool" where
  "check_cells b [] = Inr True"
| "check_cells b ((new_row, new_col) # cs) =
     (if new_row < 0 \<or> new_row \<ge> board_height \<or> new_col < 0 \<or> new_col \<ge> board_width
      then Inr False
      else (case cell_at b new_row new_col of
              Inl e \<Rightarrow> Inl e
            | Inr c \<Rightarrow> if c \<noteq> CHR ''.'' then Inr False else check_cells b cs))"

definition is_valid_position_tetris ::
    "board \<Rightarrow> piece \<Rightarrow> int \<times> int \<Rightarrow> int \<Rightarrow> py_error + bool" where
  "is_valid_position_tetris b p pos rotation =
     (case get_piece_shape p rotation of
        Inl e \<Rightarrow> Inl e
      | Inr sh \<Rightarrow> check_cells b (shape_cells sh pos))"

fun write_cells :: "board \<Rightarrow> char \<Rightarrow> (int \<times> int) list \<Rightarrow> py_error + board" where
  "write_cells b t [] = Inr b"
| "write_cells b t ((new_row, new_col) # cs) =
     (if 0 \<le> new_row \<and> new_row < board_height \<and> 0 \<le> new_col \<and> new_col < board_width
      then (if nat new_row < length b \<and> nat new_col < length (b ! nat new_row)
            then write_cells (b[nat new_row := (b ! nat new_row)[nat new_col := t]]) t cs
            else Inl IndexError)
      else write_cells b t cs)"

definition place_piece :: "board \<Rightarrow> piece \<Rightarrow> int \<times> int \<Rightarrow> int \<Rightarrow> py_error + board" where
  "place_piece b p pos rotation =
     (case get_piece_shape p rotation of
        Inl e \<Rightarrow> Inl e
      | Inr sh \<Rightarrow> write_cells b (ptype p) (shape_cells sh pos))"

text \<open>The \<^verbatim>\<open>while len(new_board) < self.board_height\<close> loop of \<^verbatim>\<open>clear_lines\<close>.\<close>

function add_empty_lines :: "board \<Rightarrow> board" where
  "add_empty_lines new_board =
     (if int (length new_board) < board_height
      then add_empty_lines (empty_row # new_board) else new_board)"
  by pat_completeness auto
termination
  by (relation "measure (\<lambda>b. nat board_height - length b)") auto

declare add_empty_lines.simps [simp del]

definition clear_lines :: "board \<Rightarrow> board \<times> int" where
  "clear_lines b =
     (let lines_cleared = int (length (filter (\<lambda>row. CHR ''.'' \<notin> set row) b));
          new_board = filter (\<lambda>row. CHR ''.'' \<in> set row) b
      in (add_empty_lines new_board, lines_cleared))"

definition base_scores :: "int \<rightharpoonup> int" where
  "base_scores = [1 \<mapsto> 40, 2 \<mapsto> 100, 3 \<mapsto> 300, 4 \<mapsto> 1200]"

definition calculate_score :: "int \<Rightarrow> int \<Rightarrow> int" where
  "calculate_score lines_cleared level =
     (if lines_cleared = 0 then 0
      else (case base_scores lines_cleared of None \<Rightarrow> 0 | Some b \<Rightarrow> b) * (level + 1))"

text \<open>The \<^verbatim>\<open>if\<close>/\<^verbatim>\<open>elif\<close> chain of \<^verbatim>\<open>move_piece\<close> that turns the requested move into a
  candidate position and rotation; \<open>None\<close> is the final \<^verbatim>\<open>else\<close> (no such move).\<close>

definition candidate ::
    "string \<Rightarrow> piece \<Rightarrow> int \<times> int \<Rightarrow> int \<Rightarrow> (py_error + (int \<times> int) \<times> int) option" where
  "candidate direction p pos rotation =
     (if direction = ''left'' then Some (Inr ((fst pos, snd pos - 1), rotation))
      else if direction = ''right'' then Some (Inr ((fst pos, snd pos + 1), rotation))
      else if direction = ''down'' then Some (Inr ((fst pos + 1, snd pos), rotation))
      else if direction = ''rotate'' then
        (if shapes p = [] then Some (Inl ZeroDivisionError)
         else Some (Inr (pos, (rotation + 1) mod int (length (shapes p)))))
      else None)"

text \<open>\<^verbatim>\<open>place_current_piece\<close>: lock the piece, clear lines, score, spawn the next piece and
  test the spawn position. The first branch is \<^verbatim>\<open>player_id == self.player1_id\<close>.\<close>

definition place_current_piece ::
    "int \<Rightarrow> tetris_game \<Rightarrow> rng \<Rightarrow> py_error + (result \<times> tetris_game \<times> rng)" where
  "place_current_piece player_id g r =
     (if player_id \<noteq> player1_id g \<and> player_id \<noteq> player2_id g
      then Inr (reply False ''Invalid player'', g, r)
      else
        let first = (player_id = player1_id g);
            b = (if first then player1_board g else player2_board g);
            p = (if first then player1_current_piece g else player2_current_piece g);
            pos = (if first then player1_piece_pos g else player2_piece_pos g);
            rotation = (if first then player1_piece_rotation g else player2_piece_rotation g);
            next_piece = (if first then player1_next_piece g else player2_next_piece g)
        in case place_piece b p pos rotation of
             Inl e \<Rightarrow> Inl e
           | Inr placed \<Rightarrow>
               let (new_board, lines_cleared) = clear_lines placed;
                   level = (if first then player1_level g else player2_level g);
                   score_gained = calculate_score lines_cleared level;
                   (fresh, r') = get_random_piece r;
                   g' = (if first
                         then g\<lparr>player1_board := new_board,
                                player1_score := player1_score g + score_gained,
                                player1_lines_cleared := player1_lines_cleared g + lines_cleared,
                                player1_level := (player1_lines_cleared g + lines_cleared) div 10 + 1,
                                player1_current_piece := next_piece,
                                player1_next_piece := fresh,
                                player1_piece_pos := (0, 4),
                                player1_piece_rotation := 0\<rparr>
                         else g\<lparr>player2_board := new_board,
                                player2_score := player2_score g + score_gained,
                                player2_lines_cleared := player2_lines_cleared g + lines_cleared,
                                player2_level := (player2_lines_cleared g + lines_cleared) div 10 + 1,
                                player2_current_piece := next_piece,
                                player2_next_piece := fresh,
                                player2_piece_pos := (0, 4),
                                player2_piece_rotation := 0\<rparr>)
               in case is_valid_position_tetris new_board next_piece (0, 4) 0 of
                    Inl e \<Rightarrow> Inl e
                  | Inr ok \<Rightarrow>
                      Inr (\<lparr>success = True,
                            message = ''Piece placed, '' @ py_str lines_cleared @ '' lines cleared, ''
                                      @ py_str score_gained @ '' points gained'',
                            extras = [(''lines_cleared'', lines_cleared), (''score_gained'', score_gained)]\<rparr>,
                           (if ok then g'
                            else g'\<lparr>game_over := True,
                                    winner := Some (if first then player2_id g else player1_id g)\<rparr>),
                           r'))"

definition move_piece ::
    "int \<Rightarrow> string \<Rightarrow> tetris_game \<Rightarrow> rng \<Rightarrow> py_error + (result \<times> tetris_game \<times> rng)" where
  "move_piece player_id direction g r =
     (if game_over g then Inr (reply False ''Game is over'', g, r)
      else if player_id \<noteq> player1_id g \<and> player_id \<noteq> player2_id g
      then Inr (reply False ''Invalid player'', g, r)
      else
        let first = (player_id = player1_id g);
            b = (if first then player1_board g else player2_board g);
            p = (if first then player1_current_piece g else player2_current_piece g);
            pos = (if first then player1_piece_pos g else player2_piece_pos g);
            rotation = (if first then player1_piece_rotation g else player2_piece_rotation g)
        in case candidate direction p pos rotation of
             None \<Rightarrow> Inr (reply False ''Invalid direction'', g, r)
           | Some (Inl e) \<Rightarrow> Inl e
           | Some (Inr (new_pos, new_rotation)) \<Rightarrow>
               (case is_valid_position_tetris b p new_pos new_rotation of
                  Inl e \<Rightarrow> Inl e
                | Inr True \<Rightarrow>
                    Inr (reply True ''Piece moved'',
                         (if first
                          then g\<lparr>player1_piece_pos := new_pos, player1_piece_rotation := new_rotation\<rparr>
                          else g\<lparr>player2_piece_pos := new_pos, player2_piece_rotation := new_rotation\<rparr>),
                         r)
                | Inr False \<Rightarrow>
                    if direction = ''down'' then place_current_piece player_id g r
                    else Inr (reply False ''Invalid move'', g, r)))"

text \<open>\<^verbatim>\<open>drop_piece\<close> is a \<^verbatim>\<open>while True\<close> loop that leaves only when \<^verbatim>\<open>move_piece\<close> reports
  \<^verbatim>\<open>success\<close> false. \<open>None\<close> is a loop that never leaves; an exception of \<^verbatim>\<open>move_piece\<close>
  leaves it as \<open>Some (Inl _)\<close>.\<close>

partial_function (option) drop_piece_loop ::
    "int \<Rightarrow> tetris_game \<times> rng \<Rightarrow> (py_error + tetris_game \<times> rng) option" where
  "drop_piece_loop player_id gr =
     (case move_piece player_id ''down'' (fst gr) (snd gr) of
        Inl e \<Rightarrow> Some (Inl e)
      | Inr (res, g', r') \<Rightarrow>
          if \<not> success res then Some (Inr (g', r'))
          else drop_piece_loop player_id (g', r'))"

declare drop_piece_loop.simps [code]

definition drop_piece ::
    "int \<Rightarrow> tetris_game \<Rightarrow> rng \<Rightarrow> (py_error + (result \<times> tetris_game \<times> rng)) option" where
  "drop_piece player_id g r =
     (case drop_piece_loop player_id (g, r) of
        None \<Rightarrow> None
      | Some (Inl e) \<Rightarrow> Some (Inl e)
      | Some (Inr (g', r')) \<Rightarrow> Some (Inr (reply True ''Piece dropped'', g', r')))"

subsection \<open>Snapshots of the Tetris engine\<close>

definition piece_json :: "piece \<Rightarrow> json" where
  "piece_json p =
     JObj [(''type'', JStr [ptype p]),
           (''shapes'', JArr (map (\<lambda>sh. JArr (map JStr sh)) (shapes p)))]"

definition as_piece :: "json \<Rightarrow> piece option" where
  "as_piece j = do {
     t \<leftarrow> Option.bind (field j ''type'') as_char;
     shs \<leftarrow> Option.bind (field j ''shapes'') (as_list (as_list as_str));
     Some \<lparr>ptype = t, shapes = shs\<rparr>
   }"

definition board_json :: "board \<Rightarrow> json" where
  "board_json b = JArr (map (\<lambda>row. JArr (map (\<lambda>c. JStr [c]) row)) b)"

definition as_board :: "json \<Rightarrow> board option" where
  "as_board = as_list (as_list as_char)"

definition to_json_tetris :: "tetris_game \<Rightarrow> json" where
  "to_json_tetris g =
     JObj [(''session_id'', JStr (session_id g)),
           (''player1_id'', JInt (player1_id g)),
           (''player2_id'', JInt (player2_id g)),
           (''player1_board'', board_json (player1_board g)),
           (''player2_board'', board_json (player2_board g)),
           (''player1_score'', JInt (player1_score g)),
           (''player2_score'', JInt (player2_score g)),
           (''player1_lines_cleared'', JInt (player1_lines_cleared g)),
           (''player2_lines_cleared'', JInt (player2_lines_cleared g)),
           (''player1_level'', JInt (player1_level g)),
           (''player2_level'', JInt (player2_level g)),
           (''player1_current_piece'', piece_json (player1_current_piece g)),
           (''player2_current_piece'', piece_json (player2_current_piece g)),
           (''player1_next_piece'', piece_json (player1_next_piece g)),
           (''player2_next_piece'', piece_json (player2_next_piece g)),
           (''player1_piece_pos'', pair_json (player1_piece_pos g)),
           (''player2_piece_pos'', pair_json (player2_piece_pos g)),
           (''player1_piece_rotation'', JInt (player1_piece_rotation g)),
           (''player2_piece_rotation'', JInt (player2_piece_rotation g)),
           (''game_over'', JBool (game_over g)),
           (''winner'', opt_int_json (winner g))]"

text \<open>\<^verbatim>\<open>from_json\<close> builds a new engine with \<^verbatim>\<open>cls(session_id, player1_id, player2_id)\<close>,
  which runs \<^verbatim>\<open>reset_game\<close> and its random draws, and then overwrites the attributes.\<close>

definition from_json_tetris :: "json \<Rightarrow> rng \<Rightarrow> (tetris_game \<times> rng) option" where
  "from_json_tetris state r = do {
     sid \<leftarrow> Option.bind (field state ''session_id'') as_str;
     p1 \<leftarrow> Option.bind (field state ''player1_id'') as_int;
     p2 \<leftarrow> Option.bind (field state ''player2_id'') as_int;
     b1 \<leftarrow> Option.bind (field state ''player1_board'') as_board;
     b2 \<leftarrow> Option.bind (field state ''player2_board'') as_board;
     s1 \<leftarrow> Option.bind (field state ''player1_score'') as_int;
     s2 \<leftarrow> Option.bind (field state ''player2_score'') as_int;
     l1 \<leftarrow> Option.bind (field state ''player1_lines_cleared'') as_int;
     l2 \<leftarrow> Option.bind (field state ''player2_lines_cleared'') as_int;
     v1 \<leftarrow> Option.bind (field state ''player1_level'') as_int;
     v2 \<leftarrow> Option.bind (field state ''player2_level'') as_int;
     c1 \<leftarrow> Option.bind (field state ''player1_current_piece'') as_piece;
     c2 \<leftarrow> Option.bind (field state ''player2_current_piece'') as_piece;
     n1 \<leftarrow> Option.bind (field state ''player1_next_piece'') as_piece;
     n2 \<leftarrow> Option.bind (field state ''player2_next_piece'') as_piece;
     q1 \<leftarrow> Option.bind (field state ''player1_piece_pos'') as_pair;
     q2 \<leftarrow> Option.bind (field state ''player2_piece_pos'') as_pair;
     t1 \<leftarrow> Option.bind (field state ''player1_piece_rotation'') as_int;
     t2 \<leftarrow> Option.bind (field state ''player2_piece_rotation'') as_int;
     over \<leftarrow> Option.bind (field state ''game_over'') as_bool;
     w \<leftarrow> Option.bind (field state ''winner'') as_opt_int;
     Some (let (game, r') = reset_game_tetris sid p1 p2 r
           in (game\<lparr>player1_board := b1, player2_board := b2,
                    player1_score := s1, player2_score := s2,
                    player1_lines_cleared := l1, player2_lines_cleared := l2,
                    player1_level := v1, player2_level := v2,
                    player1_current_piece := c1, player2_current_piece := c2,
                    player1_next_piece := n1, player2_next_piece := n2,
                    player1_piece_pos := q1, player2_piece_pos := q2,
                    player1_piece_rotation := t1, player2_piece_rotation := t2,
                    game_over := over, winner := w\<rparr>, r'))
   }"

section \<open>The Snake engine\<close>

text \<open>
  A cell of a snake or of the food list is a Python sequence of two integers. The engine
  writes cells as tuples (\<^verbatim>\<open>(7, 2)\<close>, \<^verbatim>\<open>new_head = (head_x, head_y + 1)\<close>), and
  \<^verbatim>\<open>json.loads\<close> returns them as lists (\<^verbatim>\<open>[7, 2]\<close>). Python's \<^verbatim>\<open>==\<close>, which \<^verbatim>\<open>in\<close> and
  \<^verbatim>\<open>list.remove\<close> use, never holds between a tuple and a list, so the two kinds are kept
  apart: equality of \<open>pycell\<close> is Python's \<^verbatim>\<open>==\<close> on these values.
\<close>

datatype pycell = PyTuple int int | PyList int int

fun cell_x :: "pycell \<Rightarrow> int" where
  "cell_x (PyTuple x y) = x"
| "cell_x (PyList x y) = x"

fun cell_y :: "pycell \<Rightarrow> int" where
  "cell_y (PyTuple x y) = y"
| "cell_y (PyList x y) = y"

record snake_game = game_core +
  player1_snake :: "pycell list"
  player2_snake :: "pycell list"
  player1_direction :: string
  player2_direction :: string
  player1_alive :: bool
  player2_alive :: bool
  food_positions :: "pycell list"
  turn_count :: int

definition snake_board_width :: int where "snake_board_width = 15"
definition snake_board_height :: int where "snake_board_height = 15"

text \<open>\<^verbatim>\<open>spawn_food\<close>: the loop over \<^verbatim>\<open>attempts\<close>, with two \<^verbatim>\<open>randint\<close> draws per attempt.\<close>

function spawn_food_from :: "int \<Rightarrow> snake_game \<Rightarrow> rng \<Rightarrow> bool \<times> snake_game \<times> rng" where
  "spawn_food_from attempts g r =
     (if attempts < 50 then
        (let (x, r1) = randint 0 (snake_board_width - 1) r;
             (y, r2) = randint 0 (snake_board_height - 1) r1
         in if PyTuple x y \<notin> set (player1_snake g) \<and>
               PyTuple x y \<notin> set (player2_snake g) \<and>
               PyTuple x y \<notin> set (food_positions g)
            then (True, g\<lparr>food_positions := food_positions g @ [PyTuple x y]\<rparr>, r2)
            else spawn_food_from (attempts + 1) g r2)
      else (False, g, r))"
  by pat_completeness auto
termination
  by (relation "measure (\<lambda>(attempts, g, r). nat (50 - attempts))") auto

declare spawn_food_from.simps [simp del]

definition spawn_food :: "snake_game \<Rightarrow> rng \<Rightarrow> bool \<times> snake_game \<times> rng" where
  "spawn_food g r = spawn_food_from 0 g r"

definition reset_game_snake :: "string \<Rightarrow> int \<Rightarrow> int \<Rightarrow> rng \<Rightarrow> snake_game \<times> rng" where
  "reset_game_snake sid p1 p2 r =
     (let g = \<lparr>session_id = sid, player1_id = p1, player2_id = p2,
               player1_score = 0, player2_score = 0, game_over = False, winner = None,
               player1_snake = [PyTuple 7 2, PyTuple 7 1, PyTuple 7 0],
               player2_snake = [PyTuple 7 12, PyTuple 7 13, PyTuple 7 14],
               player1_direction = ''right'', player2_direction = ''left'',
               player1_alive = True, player2_alive = True,
               food_positions = [], turn_count = 0\<rparr>;
          (ok1, g1, r1) = spawn_food g r;
          (ok2, g2, r2) = spawn_food g1 r1
      in (g2, r2))"

definition is_valid_position_snake :: "int \<Rightarrow> int \<Rightarrow> bool" where
  "is_valid_position_snake x y =
     (0 \<le> x \<and> x < snake_board_height \<and> 0 \<le> y \<and> y < snake_board_width)"

text \<open>\<^verbatim>\<open>opposite_directions.get(current_direction)\<close>.\<close>

definition opposite_directions :: "string \<rightharpoonup> string" where
  "opposite_directions =
     [''up'' \<mapsto> ''down'', ''down'' \<mapsto> ''up'', ''left'' \<mapsto> ''right'', ''right'' \<mapsto> ''left'']"

text \<open>The tail of \<^verbatim>\<open>move_snake\<close>, after the player has been found: the no-reverse check
  against \<^verbatim>\<open>current_direction\<close>, then the update of the stored direction.\<close>

definition change_direction :: "int \<Rightarrow> string \<Rightarrow> string \<Rightarrow> snake_game \<Rightarrow> result \<times> snake_game" where
  "change_direction player_id direction current_direction g =
     (if Some direction = opposite_directions current_direction
      then (reply False ''Cannot reverse direction'', g)
      else (reply True (''Direction changed to '' @ direction),
            (if player_id = player1_id g
             then g\<lparr>player1_direction := direction\<rparr>
             else g\<lparr>player2_direction := direction\<rparr>)))"

definition move_snake :: "int \<Rightarrow> string \<Rightarrow> snake_game \<Rightarrow> result \<times> snake_game" where
  "move_snake player_id direction g =
     (if game_over g then (reply False ''Game is over'', g)
      else if player_id = player1_id g then
        (if \<not> player1_alive g then (reply False ''Player 1 is eliminated'', g)
         else change_direction player_id direction (player1_direction g) g)
      else if player_id = player2_id g then
        (if \<not> player2_alive g then (reply False ''Player 2 is eliminated'', g)
         else change_direction player_id direction (player2_direction g) g)
      else (reply False ''Invalid player'', g))"

text \<open>The \<^verbatim>\<open>if\<close>/\<^verbatim>\<open>elif\<close> chain of \<^verbatim>\<open>move_player_snake\<close> that computes \<^verbatim>\<open>new_head\<close>, always
  a tuple; \<open>None\<close> is the final \<^verbatim>\<open>else\<close> (no such direction).\<close>

definition new_head_of :: "string \<Rightarrow> pycell \<Rightarrow> pycell option" where
  "new_head_of direction head =
     (let head_x = cell_x head; head_y = cell_y head
      in if direction = ''up'' then Some (PyTuple (head_x - 1) head_y)
         else if direction = ''down'' then Some (PyTuple (head_x + 1) head_y)
         else if direction = ''left'' then Some (PyTuple head_x (head_y - 1))
         else if direction = ''right'' then Some (PyTuple head_x (head_y + 1))
         else None)"

text \<open>\<^verbatim>\<open>move_player_snake\<close>. \<^verbatim>\<open>snake[0]\<close> raises on an empty snake. The list \<^verbatim>\<open>snake\<close> is
  the engine's own list object, so \<^verbatim>\<open>insert\<close> and \<^verbatim>\<open>pop\<close> change the engine's snake;
  \<^verbatim>\<open>spawn_food\<close> runs after the insertion and before the tail is dropped.\<close>

definition move_player_snake ::
    "int \<Rightarrow> snake_game \<Rightarrow> rng \<Rightarrow> py_error + (result \<times> snake_game \<times> rng)" where
  "move_player_snake player_id g r =
     (if player_id \<noteq> player1_id g \<and> player_id \<noteq> player2_id g
      then Inr (reply False ''Invalid player'', g, r)
      else
        let first = (player_id = player1_id g);
            snake = (if first then player1_snake g else player2_snake g);
            direction = (if first then player1_direction g else player2_direction g);
            eliminated = (if first then g\<lparr>player1_alive := False\<rparr> else g\<lparr>player2_alive := False\<rparr>)
        in case snake of
             [] \<Rightarrow> Inl IndexError
           | head # _ \<Rightarrow>
               (case new_head_of direction head of
                  None \<Rightarrow> Inr (reply False ''Invalid direction'', g, r)
                | Some new_head \<Rightarrow>
                    if \<not> is_valid_position_snake (cell_x new_head) (cell_y new_head)
                    then Inr (reply False ''Hit wall - eliminated!'', eliminated, r)
                    else if new_head \<in> set snake
                    then Inr (reply False ''Hit self - eliminated!'', eliminated, r)
                    else if new_head \<in> set (if first then player2_snake g else player1_snake g)
                    then Inr (reply False ''Hit opponent - eliminated!'', eliminated, r)
                    else
                      let grown = new_head # snake;
                          g1 = (if first then g\<lparr>player1_snake := grown\<rparr>
                                else g\<lparr>player2_snake := grown\<rparr>)
                      in if new_head \<in> set (food_positions g1)
                         then
                           let g2 = g1\<lparr>food_positions := remove1 new_head (food_positions g1)\<rparr>;
                               g3 = (if first then g2\<lparr>player1_score := player1_score g2 + 10\<rparr>
                                     else g2\<lparr>player2_score := player2_score g2 + 10\<rparr>);
                               (spawned, g4, r') = spawn_food g3 r
                           in Inr (reply True ''Moved and ate food (+10 points)'', g4, r')
                         else
                           Inr (reply True ''Moved'',
                                (if first then g1\<lparr>player1_snake := butlast grown\<rparr>
                                 else g1\<lparr>player2_snake := butlast grown\<rparr>),
                                r)))"

definition tie_break :: "snake_game \<Rightarrow> int option" where
  "tie_break g =
     (if player1_score g > player2_score g then Some (player1_id g)
      else if player2_score g > player1_score g then Some (player2_id g)
      else None)"

definition check_game_over_snake :: "snake_game \<Rightarrow> snake_game" where
  "check_game_over_snake g =
     (let g1 = (if \<not> player1_alive g \<and> \<not> player2_alive g
                then g\<lparr>game_over := True, winner := tie_break g\<rparr>
                else if \<not> player1_alive g
                then g\<lparr>game_over := True, winner := Some (player2_id g)\<rparr>
                else if \<not> player2_alive g
                then g\<lparr>game_over := True, winner := Some (player1_id g)\<rparr>
                else g)
      in if turn_count g1 \<ge> 200
         then g1\<lparr>game_over := True, winner := tie_break g1\<rparr>
         else g1)"

text \<open>\<^verbatim>\<open>" | ".join(results)\<close>.\<close>

fun join :: "string \<Rightarrow> string list \<Rightarrow> string" where
  "join sep [] = []"
| "join sep [x] = x"
| "join sep (x # y # ys) = x @ sep @ join sep (y # ys)"

definition update_game_state ::
    "snake_game \<Rightarrow> rng \<Rightarrow> py_error + (result \<times> snake_game \<times> rng)" where
  "update_game_state g r =
     (if game_over g then Inr (reply False ''Game is over'', g, r)
      else
        case (if player1_alive g
              then (case move_player_snake (player1_id g) g r of
                      Inl e \<Rightarrow> Inl e
                    | Inr (result1, g1, r1) \<Rightarrow> Inr ([''P1: '' @ message result1], g1, r1))
              else Inr ([], g, r)) of
          Inl e \<Rightarrow> Inl e
        | Inr (results1, g1, r1) \<Rightarrow>
            (case (if player2_alive g1
                   then (case move_player_snake (player2_id g1) g1 r1 of
                           Inl e \<Rightarrow> Inl e
                         | Inr (result2, g2, r2) \<Rightarrow>
                             Inr (results1 @ [''P2: '' @ message result2], g2, r2))
                   else Inr (results1, g1, r1)) of
               Inl e \<Rightarrow> Inl e
             | Inr (results, g2, r2) \<Rightarrow>
                 let g3 = check_game_over_snake g2;
                     g4 = g3\<lparr>turn_count := turn_count g3 + 1\<rparr>
                 in Inr (\<lparr>success = True, message = join '' | '' results,
                          extras = [(''turn'', turn_count g4)]\<rparr>, g4, r2)))"

subsection \<open>Snapshots of the Snake engine\<close>

definition cell_json :: "pycell \<Rightarrow> json" where
  "cell_json c = JArr [JInt (cell_x c), JInt (cell_y c)]"

definition as_cell :: "json \<Rightarrow> pycell option" where
  "as_cell j = map_option (\<lambda>(x, y). PyList x y) (as_pair j)"

definition to_json_snake :: "snake_game \<Rightarrow> json" where
  "to_json_snake g =
     JObj [(''session_id'', JStr (session_id g)),
           (''player1_id'', JInt (player1_id g)),
           (''player2_id'', JInt (player2_id g)),
           (''player1_snake'', JArr (map cell_json (player1_snake g))),
           (''player2_snake'', JArr (map cell_json (player2_snake g))),
           (''player1_direction'', JStr (player1_direction g)),
           (''player2_direction'', JStr (player2_direction g)),
           (''player1_score'', JInt (player1_score g)),
           (''player2_score'', JInt (player2_score g)),
           (''player1_alive'', JBool (player1_alive g)),
           (''player2_alive'', JBool (player2_alive g)),
           (''food_positions'', JArr (map cell_json (food_positions g))),
           (''turn_count'', JInt (turn_count g)),
           (''game_over'', JBool (game_over g)),
           (''winner'', opt_int_json (winner g))]"

definition from_json_snake :: "json \<Rightarrow> rng \<Rightarrow> (snake_game \<times> rng) option" where
  "from_json_snake state r = do {
     sid \<leftarrow> Option.bind (field state ''session_id'') as_str;
     p1 \<leftarrow> Option.bind (field state ''player1_id'') as_int;
     p2 \<leftarrow> Option.bind (field state ''player2_id'') as_int;
     k1 \<leftarrow> Option.bind (field state ''player1_snake'') (as_list as_cell);
     k2 \<leftarrow> Option.bind (field state ''player2_snake'') (as_list as_cell);
     d1 \<leftarrow> Option.bind (field state ''player1_direction'') as_str;
     d2 \<leftarrow> Option.bind (field state ''player2_direction'') as_str;
     s1 \<leftarrow> Option.bind (field state ''player1_score'') as_int;
     s2 \<leftarrow> Option.bind (field state ''player2_score'') as_int;
     a1 \<leftarrow> Option.bind (field state ''player1_alive'') as_bool;
     a2 \<leftarrow> Option.bind (field state ''player2_alive'') as_bool;
     food \<leftarrow> Option.bind (field state ''food_positions'') (as_list as_cell);
     turns \<leftarrow> Option.bind (field state ''turn_count'') as_int;
     over \<leftarrow> Option.bind (field state ''game_over'') as_bool;
     w \<leftarrow> Option.bind (field state ''winner'') as_opt_int;
     Some (let (game, r') = reset_game_snake sid p1 p2 r
           in (game\<lparr>player1_snake := k1, player2_snake := k2,
                    player1_direction := d1, player2_direction := d2,
                    player1_score := s1, player2_score := s2,
                    player1_alive := a1, player2_alive := a2,
                    food_positions := food, turn_count := turns,
                    game_over := over, winner := w\<rparr>, r'))
   }"

section \<open>The Ping Pong engine\<close>

record pong_game = game_core +
  player1_paddle_y :: int
  player2_paddle_y :: int
  paddle_height :: int
  ball_x :: int
  ball_y :: int
  ball_vel_x :: int
  ball_vel_y :: int
  rally_count :: int
  max_score :: int
  pong_turn_count :: int

definition field_width :: int where "field_width = 20"
definition field_height :: int where "field_height = 10"

definition reset_ball :: "pong_game \<Rightarrow> rng \<Rightarrow> pong_game \<times> rng" where
  "reset_ball g r =
     (let (vx, r1) = choice [- 1, 1] r;
          (vy, r2) = choice [- 1, 0, 1] r1
      in (g\<lparr>ball_x := field_width div 2, ball_y := field_height div 2,
            ball_vel_x := vx, ball_vel_y := vy, rally_count := 0\<rparr>, r2))"

definition reset_game_pong :: "string \<Rightarrow> int \<Rightarrow> int \<Rightarrow> rng \<Rightarrow> pong_game \<times> rng" where
  "reset_game_pong sid p1 p2 r =
     (let (vx, r1) = choice [- 1, 1] r;
          (vy, r2) = choice [- 1, 0, 1] r1
      in (\<lparr>session_id = sid, player1_id = p1, player2_id = p2,
            player1_score = 0, player2_score = 0, game_over = False, winner = None,
            player1_paddle_y = field_height div 2 - 1,
            player2_paddle_y = field_height div 2 - 1,
            paddle_height = 3,
            ball_x = field_width div 2, ball_y = field_height div 2,
            ball_vel_x = vx, ball_vel_y = vy,
            rally_count = 0, max_score = 11, pong_turn_count = 0\<rparr>, r2))"

definition move_paddle :: "int \<Rightarrow> string \<Rightarrow> pong_game \<Rightarrow> result \<times> pong_game" where
  "move_paddle player_id direction g =
     (if game_over g then (reply False ''Game is over'', g)
      else if player_id \<noteq> player1_id g \<and> player_id \<noteq> player2_id g
      then (reply False ''Invalid player'', g)
      else
        let current_y = (if player_id = player1_id g then player1_paddle_y g
                         else player2_paddle_y g)
        in if direction \<noteq> ''up'' \<and> direction \<noteq> ''down''
           then (reply False (''Invalid direction. Use 'up' or 'down'' @ [CHR 0x27]), g)
           else
             let new_y = (if direction = ''up'' then max 0 (current_y - 1)
                          else min (field_height - paddle_height g) (current_y + 1))
             in (reply True (''Paddle moved '' @ direction),
                 (if player_id = player1_id g then g\<lparr>player1_paddle_y := new_y\<rparr>
                  else g\<lparr>player2_paddle_y := new_y\<rparr>)))"

text \<open>\<^verbatim>\<open>check_paddle_collision\<close> returns a dictionary with \<^verbatim>\<open>collision\<close> true and the new
  position and velocity, or with \<^verbatim>\<open>collision\<close> false: \<open>Some (new_x, new_y, new_vel_x,
  new_vel_y)\<close> or \<open>None\<close>.\<close>

definition check_paddle_collision :: "pong_game \<Rightarrow> int \<Rightarrow> int \<Rightarrow> (int \<times> int \<times> int \<times> int) option" where
  "check_paddle_collision g bx by =
     (if bx \<le> 1 \<and> ball_vel_x g < 0 \<and>
         player1_paddle_y g \<le> by \<and> by < player1_paddle_y g + paddle_height g
      then (let paddle_center = player1_paddle_y g + paddle_height g div 2;
                hit_position = by - paddle_center
            in Some (2, by, 1, hit_position))
      else if bx \<ge> field_width - 2 \<and> ball_vel_x g > 0 \<and>
              player2_paddle_y g \<le> by \<and> by < player2_paddle_y g + paddle_height g
      then (let paddle_center = player2_paddle_y g + paddle_height g div 2;
                hit_position = by - paddle_center
            in Some (field_width - 3, by, - 1, hit_position))
      else None)"

definition check_game_over_pong :: "pong_game \<Rightarrow> pong_game" where
  "check_game_over_pong g =
     (let g1 = (if player1_score g \<ge> max_score g
                then g\<lparr>game_over := True, winner := Some (player1_id g)\<rparr>
                else if player2_score g \<ge> max_score g
                then g\<lparr>game_over := True, winner := Some (player2_id g)\<rparr>
                else g)
      in if pong_turn_count g1 \<ge> 500
         then g1\<lparr>game_over := True,
                 winner := (if player1_score g1 > player2_score g1 then Some (player1_id g1)
                            else if player2_score g1 > player1_score g1 then Some (player2_id g1)
                            else None)\<rparr>
         else g1)"

definition score_line :: "string \<Rightarrow> pong_game \<Rightarrow> string" where
  "score_line who g =
     who @ '' scores! ('' @ py_str (player1_score g) @ ''-'' @ py_str (player2_score g) @ '')''"

text \<open>\<^verbatim>\<open>update_ball\<close>. On a paddle hit the method stores the new velocity and raises the
  rally count; the position the collision returns goes to the local variables \<^verbatim>\<open>new_x\<close> and
  \<^verbatim>\<open>new_y\<close> only, and \<^verbatim>\<open>self.ball_x\<close> and \<^verbatim>\<open>self.ball_y\<close> stay as they were. They are
  written in the last branch alone (\<^verbatim>\<open>Ball moved\<close>) and by \<^verbatim>\<open>reset_ball\<close>.\<close>

definition update_ball :: "pong_game \<Rightarrow> rng \<Rightarrow> result \<times> pong_game \<times> rng" where
  "update_ball g r =
     (if game_over g then (reply False ''Game is over'', g, r)
      else
        let new_x = ball_x g + ball_vel_x g;
            new_y0 = ball_y g + ball_vel_y g;
            (new_y, g1) =
              (if new_y0 \<le> 0 then (0, g\<lparr>ball_vel_y := \<bar>ball_vel_y g\<bar>\<rparr>)
               else if new_y0 \<ge> field_height - 1
               then (field_height - 1, g\<lparr>ball_vel_y := - \<bar>ball_vel_y g\<bar>\<rparr>)
               else (new_y0, g));
            (msg, g2, r') =
              (case check_paddle_collision g1 new_x new_y of
                 Some (cx, cy, cvx, cvy) \<Rightarrow>
                   (''Paddle hit! Rally: '' @ py_str (rally_count g1 + 1),
                    g1\<lparr>ball_vel_x := cvx, ball_vel_y := cvy,
                       rally_count := rally_count g1 + 1\<rparr>, r)
               | None \<Rightarrow>
                   if new_x \<le> 0 then
                     (let gs = g1\<lparr>player2_score := player2_score g1 + 1\<rparr>;
                          (gb, rb) = reset_ball gs r
                      in (score_line ''Player 2'' gs, check_game_over_pong gb, rb))
                   else if new_x \<ge> field_width - 1 then
                     (let gs = g1\<lparr>player1_score := player1_score g1 + 1\<rparr>;
                          (gb, rb) = reset_ball gs r
                      in (score_line ''Player 1'' gs, check_game_over_pong gb, rb))
                   else (''Ball moved'', g1\<lparr>ball_x := new_x, ball_y := new_y\<rparr>, r))
        in (reply True msg, g2\<lparr>pong_turn_count := pong_turn_count g2 + 1\<rparr>, r'))"

definition simulate_turn :: "pong_game \<Rightarrow> rng \<Rightarrow> result \<times> pong_game \<times> rng" where
  "simulate_turn g r =
     (if game_over g then (reply False ''Game is over'', g, r) else update_ball g r)"

definition auto_move_paddle :: "int \<Rightarrow> pong_game \<Rightarrow> result \<times> pong_game" where
  "auto_move_paddle player_id g =
     (if game_over g then (reply False ''Game is over'', g)
      else if player_id \<noteq> player1_id g \<and> player_id \<noteq> player2_id g
      then (reply False ''Invalid player'', g)
      else
        let paddle_y = (if player_id = player1_id g then player1_paddle_y g
                        else player2_paddle_y g);
            paddle_center = paddle_y + paddle_height g div 2
        in if ball_y g < paddle_center then move_paddle player_id ''up'' g
           else if ball_y g > paddle_center then move_paddle player_id ''down'' g
           else (reply True ''Paddle in optimal position'', g))"

subsection \<open>Snapshots of the Ping Pong engine\<close>

definition to_json_pong :: "pong_game \<Rightarrow> json" where
  "to_json_pong g =
     JObj [(''session_id'', JStr (session_id g)),
           (''player1_id'', JInt (player1_id g)),
           (''player2_id'', JInt (player2_id g)),
           (''player1_score'', JInt (player1_score g)),
           (''player2_score'', JInt (player2_score g)),
           (''player1_paddle_y'', JInt (player1_paddle_y g)),
           (''player2_paddle_y'', JInt (player2_paddle_y g)),
           (''ball_x'', JInt (ball_x g)),
           (''ball_y'', JInt (ball_y g)),
           (''ball_vel_x'', JInt (ball_vel_x g)),
           (''ball_vel_y'', JInt (ball_vel_y g)),
           (''rally_count'', JInt (rally_count g)),
           (''turn_count'', JInt (pong_turn_count g)),
           (''max_score'', JInt (max_score g)),
           (''game_over'', JBool (game_over g)),
           (''winner'', opt_int_json (winner g))]"

definition from_json_pong :: "json \<Rightarrow> rng \<Rightarrow> (pong_game \<times> rng) option" where
  "from_json_pong state r = do {
     sid \<leftarrow> Option.bind (field state ''session_id'') as_str;
     p1 \<leftarrow> Option.bind (field state ''player1_id'') as_int;
     p2 \<leftarrow> Option.bind (field state ''player2_id'') as_int;
     s1 \<leftarrow> Option.bind (field state ''player1_score'') as_int;
     s2 \<leftarrow> Option.bind (field state ''player2_score'') as_int;
     y1 \<leftarrow> Option.bind (field state ''player1_paddle_y'') as_int;
     y2 \<leftarrow> Option.bind (field state ''player2_paddle_y'') as_int;
     bx \<leftarrow> Option.bind (field state ''ball_x'') as_int;
     by \<leftarrow> Option.bind (field state ''ball_y'') as_int;
     vx \<leftarrow> Option.bind (field state ''ball_vel_x'') as_int;
     vy \<leftarrow> Option.bind (field state ''ball_vel_y'') as_int;
     rally \<leftarrow> Option.bind (field state ''rally_count'') as_int;
     turns \<leftarrow> Option.bind (field state ''turn_count'') as_int;
     ms \<leftarrow> Option.bind (field state ''max_score'') as_int;
     over \<leftarrow> Option.bind (field state ''game_over'') as_bool;
     w \<leftarrow> Option.bind (field state ''winner'') as_opt_int;
     Some (let (game, r') = reset_game_pong sid p1 p2 r
           in (game\<lparr>player1_score := s1, player2_score := s2,
                    player1_paddle_y := y1, player2_paddle_y := y2,
                    ball_x := bx, ball_y := by, ball_vel_x := vx, ball_vel_y := vy,
                    rally_count := rally, pong_turn_count := turns, max_score := ms,
                    game_over := over, winner := w\<rparr>, r'))
   }"

section \<open>The acting player's attributes\<close>

text \<open>Every method picks the acting player's attributes with
  \<^verbatim>\<open>if player_id == self.player1_id: ... else: ...\<close>; these are the same selections, named.\<close>

definition board_of :: "int \<Rightarrow> tetris_game \<Rightarrow> board" where
  "board_of pid g = (if pid = player1_id g then player1_board g else player2_board g)"

definition current_piece_of :: "int \<Rightarrow> tetris_game \<Rightarrow> piece" where
  "current_piece_of pid g =
     (if pid = player1_id g then player1_current_piece g else player2_current_piece g)"

definition piece_pos_of :: "int \<Rightarrow> tetris_game \<Rightarrow> int \<times> int" where
  "piece_pos_of pid g = (if pid = player1_id g then player1_piece_pos g else player2_piece_pos g)"

definition piece_rotation_of :: "int \<Rightarrow> tetris_game \<Rightarrow> int" where
  "piece_rotation_of pid g =
     (if pid = player1_id g then player1_piece_rotation g else player2_piece_rotation g)"

definition level_of :: "int \<Rightarrow> tetris_game \<Rightarrow> int" where
  "level_of pid g = (if pid = player1_id g then player1_level g else player2_level g)"

definition score_of :: "int \<Rightarrow> tetris_game \<Rightarrow> int" where
  "score_of pid g = (if pid = player1_id g then player1_score g else player2_score g)"

definition opponent_of :: "int \<Rightarrow> tetris_game \<Rightarrow> int" where
  "opponent_of pid g = (if pid = player1_id g then player2_id g else player1_id g)"

definition direction_of :: "int \<Rightarrow> snake_game \<Rightarrow> string" where
  "direction_of pid g = (if pid = player1_id g then player1_direction g else player2_direction g)"

definition alive_of :: "int \<Rightarrow> snake_game \<Rightarrow> bool" where
  "alive_of pid g = (if pid = player1_id g then player1_alive g else player2_alive g)"

definition paddle_of :: "int \<Rightarrow> pong_game \<Rightarrow> int" where
  "paddle_of pid g = (if pid = player1_id g then player1_paddle_y g else player2_paddle_y g)"

text \<open>A row is complete when it holds no \<^verbatim>\<open>'.'\<close> (\<^verbatim>\<open>'.' not in row\<close>).\<close>

definition complete :: "char list \<Rightarrow> bool" where
  "complete row = (CHR ''.'' \<notin> set row)"

text \<open>A board of the fixed size: 20 rows of 10 cells.\<close>

definition wf_board :: "board \<Rightarrow> bool" where
  "wf_board b =
     (int (length b) = board_height \<and> (\<forall>row \<in> set b. int (length row) = board_width))"

section \<open>Driving the engines\<close>

text \<open>The caller's loop: \<open>n\<close> calls of the tick method, each on the engine the previous
  call left, stopping at an exception.\<close>

fun ticks_snake :: "nat \<Rightarrow> snake_game \<Rightarrow> rng \<Rightarrow> py_error + (snake_game \<times> rng)" where
  "ticks_snake 0 g r = Inr (g, r)"
| "ticks_snake (Suc n) g r =
     (case update_game_state g r of
        Inl e \<Rightarrow> Inl e
      | Inr (res, g', r') \<Rightarrow> ticks_snake n g' r')"

fun ticks_pong :: "nat \<Rightarrow> pong_game \<Rightarrow> rng \<Rightarrow> pong_game \<times> rng" where
  "ticks_pong 0 g r = (g, r)"
| "ticks_pong (Suc n) g r = (case update_ball g r of (res, g', r') \<Rightarrow> ticks_pong n g' r')"

fun downs :: "nat \<Rightarrow> int \<Rightarrow> tetris_game \<Rightarrow> rng \<Rightarrow> py_error + (tetris_game \<times> rng)" where
  "downs 0 pid g r = Inr (g, r)"
| "downs (Suc n) pid g r =
     (case move_piece pid ''down'' g r of
        Inl e \<Rightarrow> Inl e
      | Inr (res, g', r') \<Rightarrow> downs n pid g' r')"

text \<open>The number of cells of a board that hold a block.\<close>

definition blocks :: "board \<Rightarrow> nat" where
  "blocks b = length (filter (\<lambda>c. c \<noteq> CHR ''.'') (concat b))"

section \<open>Concrete engines\<close>

text \<open>Random sequences: every piece drawn is an \<^verbatim>\<open>O\<close>; every piece drawn is an \<^verbatim>\<open>I\<close>.\<close>

definition all_O :: rng where "all_O = (\<lambda>n. 1)"
definition all_I :: rng where "all_I = (\<lambda>n. 0)"

definition fresh_tetris :: tetris_game where
  "fresh_tetris = fst (reset_game_tetris ''s'' 1 2 all_O)"

definition over_tetris :: tetris_game where
  "over_tetris = fresh_tetris\<lparr>game_over := True, winner := Some 2\<rparr>"

text \<open>Player 1's bottom row lacks columns 4 to 7 and a flat \<^verbatim>\<open>I\<close> lies just above it.\<close>

definition one_gap_tetris :: tetris_game where
  "one_gap_tetris =
     (fst (reset_game_tetris ''s'' 1 2 all_I))
       \<lparr>player1_board := replicate 19 empty_row @ [''JJJJ....LL''],
        player1_piece_pos := (18, 4)\<rparr>"

text \<open>Player 1 has stacked eight \<^verbatim>\<open>O\<close> pieces in columns 5 and 6; the ninth rests on them.\<close>

definition stacked_tetris :: tetris_game where
  "stacked_tetris =
     fresh_tetris\<lparr>player1_board := replicate 4 empty_row @ replicate 16 ''.....OO...'',
                  player1_piece_pos := (1, 4)\<rparr>"

text \<open>Random sequences for the food of a new Snake engine: cells \<open>(7, 3)\<close> and \<open>(0, 0)\<close>;
  cells \<open>(0, 0)\<close> and \<open>(1, 1)\<close>; and a later sequence whose every draw is 5.\<close>

definition food_ahead :: rng where
  "food_ahead = (\<lambda>n. if n = 0 then 7 else if n = 1 then 3 else 0)"

definition food_away :: rng where
  "food_away = (\<lambda>n. if n < 2 then 0 else 1)"

definition fives :: rng where "fives = (\<lambda>n. 5)"

definition fresh_snake :: snake_game where
  "fresh_snake = fst (reset_game_snake ''s'' 1 2 food_ahead)"

definition calm_snake :: snake_game where
  "calm_snake = fst (reset_game_snake ''s'' 1 2 food_away)"

text \<open>The calm engine after four ticks: the heads are at \<open>(7, 6)\<close> and \<open>(7, 8)\<close> and face
  each other across the empty cell \<open>(7, 7)\<close>.\<close>

definition facing_snakes :: snake_game where
  "facing_snakes =
     calm_snake\<lparr>player1_snake := [PyTuple 7 6, PyTuple 7 5, PyTuple 7 4],
                player2_snake := [PyTuple 7 8, PyTuple 7 9, PyTuple 7 10],
                turn_count := 4\<rparr>"

text \<open>The calm engine after one tick: both snakes have moved one cell.\<close>

definition stepped_snake :: snake_game where
  "stepped_snake =
     calm_snake\<lparr>player1_snake := [PyTuple 7 3, PyTuple 7 2, PyTuple 7 1],
                player2_snake := [PyTuple 7 11, PyTuple 7 12, PyTuple 7 13],
                turn_count := 1\<rparr>"

text \<open>A new Ping Pong engine whose first draws give the ball the velocity \<open>(-1, 0)\<close>.\<close>

definition level_serve :: rng where
  "level_serve = (\<lambda>n. if n = 0 then 0 else 1)"

definition fresh_pong :: pong_game where
  "fresh_pong = fst (reset_game_pong ''s'' 1 2 level_serve)"

text \<open>A cell as \<^verbatim>\<open>json.loads\<close> returns it: a list of the same two integers.\<close>

definition as_loaded :: "pycell \<Rightarrow> pycell" where
  "as_loaded c = PyList (cell_x c) (cell_y c)"

section \<open>The tick as the specification words it\<close>

text \<open>
  The specification's rule for the opposing snake: the prospective head is compared with
  the opponent's body as it is when the tick starts. For player 2 that is this predicate
  on the engine before the tick; it is compared below with what \<open>update_game_state\<close> does.
\<close>

definition spec_player2_survives :: "snake_game \<Rightarrow> bool" where
  "spec_player2_survives g =
     (case player2_snake g of
        [] \<Rightarrow> False
      | head # _ \<Rightarrow>
          (case new_head_of (player2_direction g) head of
             None \<Rightarrow> True
           | Some new_head \<Rightarrow>
               is_valid_position_snake (cell_x new_head) (cell_y new_head) \<and>
               new_head \<notin> set (player2_snake g) \<and>
               new_head \<notin> set (player1_snake g)))"

section \<open>Values of the concrete engines\<close>

lemma fresh_snake_value:
  "fresh_snake =
     \<lparr>session_id = ''s'', player1_id = 1, player2_id = 2, player1_score = 0,
      player2_score = 0, game_over = False, winner = None,
      player1_snake = [PyTuple 7 2, PyTuple 7 1, PyTuple 7 0],
      player2_snake = [PyTuple 7 12, PyTuple 7 13, PyTuple 7 14],
      player1_direction = ''right'', player2_direction = ''left'',
      player1_alive = True, player2_alive = True,
      food_positions = [PyTuple 7 3, PyTuple 0 0], turn_count = 0\<rparr>"
  by code_simp

lemma fresh_pong_value:
  "fresh_pong =
     \<lparr>session_id = ''s'', player1_id = 1, player2_id = 2, player1_score = 0,
      player2_score = 0, game_over = False, winner = None,
      player1_paddle_y = 4, player2_paddle_y = 4, paddle_height = 3,
      ball_x = 10, ball_y = 5, ball_vel_x = - 1, ball_vel_y = 0,
      rally_count = 0, max_score = 11, pong_turn_count = 0\<rparr>"
  by code_simp

lemma player1_id_fresh_snake: "player1_id fresh_snake = 1"
  by (simp add: fresh_snake_value)

section \<open>Snake: the no-reverse rule of \<open>move_snake\<close>\<close>

lemma opposite_directions_cases:
  "opposite_directions cur = Some d \<longleftrightarrow>
     (cur = ''up'' \<and> d = ''down'') \<or> (cur = ''down'' \<and> d = ''up'') \<or>
     (cur = ''left'' \<and> d = ''right'') \<or> (cur = ''right'' \<and> d = ''left'')"
  by (auto simp: opposite_directions_def)

text \<open>
  Claim C7. While the game is not over and the acting player is alive, \<open>move_snake\<close>
  rejects the heading that is the direct reverse of the stored one and returns the engine
  as it was; every other request, the stored heading itself included, is accepted and
  becomes the stored heading, and nothing else changes. The reverse is what
  \<open>opposite_directions\<close> gives (\<open>opposite_directions_cases\<close>: up/down and left/right).
\<close>

theorem move_snake_no_reverse:
  assumes "\<not> game_over g"
    and "pid = player1_id g \<or> pid = player2_id g"
    and "alive_of pid g"
  shows "move_snake pid d g =
           (if opposite_directions (direction_of pid g) = Some d
            then (reply False ''Cannot reverse direction'', g)
            else (reply True (''Direction changed to '' @ d),
                  if pid = player1_id g then g\<lparr>player1_direction := d\<rparr>
                  else g\<lparr>player2_direction := d\<rparr>)) \<and>
         direction_of pid (snd (move_snake pid d g)) =
           (if opposite_directions (direction_of pid g) = Some d then direction_of pid g else d)"
  using assms
  by (auto simp: move_snake_def change_direction_def direction_of_def alive_of_def)

theorem move_snake_no_reverse_witness:
  "\<not> game_over fresh_snake \<and> alive_of 2 fresh_snake \<and> direction_of 2 fresh_snake = ''left'' \<and>
   move_snake 2 ''right'' fresh_snake = (reply False ''Cannot reverse direction'', fresh_snake) \<and>
   success (fst (move_snake 2 ''left'' fresh_snake)) \<and>
   direction_of 2 (snd (move_snake 2 ''left'' fresh_snake)) = ''left'' \<and>
   success (fst (move_snake 2 ''up'' fresh_snake)) \<and>
   direction_of 2 (snd (move_snake 2 ''up'' fresh_snake)) = ''up''"
proof -
  have h: "\<not> game_over fresh_snake" "2 = player1_id fresh_snake \<or> 2 = player2_id fresh_snake"
    "alive_of 2 fresh_snake" "direction_of 2 fresh_snake = ''left''"
    by (simp_all add: fresh_snake_value alive_of_def direction_of_def)
  show ?thesis
    using move_snake_no_reverse [OF h(1-3), of "''right''"]
      move_snake_no_reverse [OF h(1-3), of "''left''"]
      move_snake_no_reverse [OF h(1-3), of "''up''"] h
    by (simp add: opposite_directions_def reply_def player1_id_fresh_snake direction_of_def)
qed

section \<open>Ping Pong: a paddle at the edge\<close>

text \<open>
  Claim C9. A paddle move past the field's vertical extent is clamped, not rejected: while
  the game is not over, \<open>move_paddle\<close> with \<^verbatim>\<open>up\<close> at offset 0, or with \<^verbatim>\<open>down\<close> at offset
  \<open>field_height - paddle_height\<close>, reports success and returns the engine unchanged.
\<close>

theorem move_paddle_clamps:
  assumes "\<not> game_over g"
    and "pid = player1_id g \<or> pid = player2_id g"
  shows "(paddle_of pid g = 0 \<longrightarrow> move_paddle pid ''up'' g = (reply True ''Paddle moved up'', g)) \<and>
         (paddle_of pid g = field_height - paddle_height g \<longrightarrow>
            move_paddle pid ''down'' g = (reply True ''Paddle moved down'', g))"
  using assms
  by (auto simp: move_paddle_def paddle_of_def Let_def)

theorem move_paddle_clamps_witness:
  "\<not> game_over (fresh_pong\<lparr>player1_paddle_y := 0, player2_paddle_y := 7\<rparr>) \<and>
   move_paddle 1 ''up'' (fresh_pong\<lparr>player1_paddle_y := 0, player2_paddle_y := 7\<rparr>) =
     (reply True ''Paddle moved up'', fresh_pong\<lparr>player1_paddle_y := 0, player2_paddle_y := 7\<rparr>) \<and>
   move_paddle 2 ''down'' (fresh_pong\<lparr>player1_paddle_y := 0, player2_paddle_y := 7\<rparr>) =
     (reply True ''Paddle moved down'', fresh_pong\<lparr>player1_paddle_y := 0, player2_paddle_y := 7\<rparr>)"
  using move_paddle_clamps [of "fresh_pong\<lparr>player1_paddle_y := 0, player2_paddle_y := 7\<rparr>" 1]
    move_paddle_clamps [of "fresh_pong\<lparr>player1_paddle_y := 0, player2_paddle_y := 7\<rparr>" 2]
  by (simp add: fresh_pong_value paddle_of_def field_height_def)

section \<open>Tetris: locking a piece\<close>

lemma add_empty_lines_eq:
  "add_empty_lines b = replicate (nat board_height - length b) empty_row @ b"
proof (induction b rule: add_empty_lines.induct)
  case (1 new_board)
  show ?case
  proof (cases "int (length new_board) < board_height")
    case True
    then have "nat board_height - length new_board = Suc (nat board_height - Suc (length new_board))"
      by linarith
    with True "1" show ?thesis
      by (subst add_empty_lines.simps) (simp add: replicate_app_Cons_same)
  next
    case False
    then show ?thesis
      by (subst add_empty_lines.simps) simp
  qed
qed

lemma complete_rows_split:
  "length (filter complete b) + length (filter (\<lambda>row. \<not> complete row) b) = length b"
  by (induction b) auto

lemma clear_lines_eq:
  assumes "int (length b) = board_height"
  shows "clear_lines b =
           (replicate (length (filter complete b)) empty_row @ filter (\<lambda>row. \<not> complete row) b,
            int (length (filter complete b)))"
proof -
  have c: "complete = (\<lambda>row. CHR ''.'' \<notin> set row)"
    by (rule ext) (simp add: complete_def)
  have "nat board_height - length (filter (\<lambda>row. \<not> complete row) b) = length (filter complete b)"
    using assms complete_rows_split [of b] by linarith
  then show ?thesis
    unfolding clear_lines_def add_empty_lines_eq Let_def c by simp
qed

lemma write_cells_length:
  "write_cells b t cs = Inr b' \<Longrightarrow> length b' = length b"
  by (induction b t cs rule: write_cells.induct) (auto split: if_splits)

lemma place_piece_length:
  "place_piece b p pos rot = Inr b' \<Longrightarrow> length b' = length b"
  by (auto simp: place_piece_def split: sum.splits dest: write_cells_length)

lemma calculate_score_table:
  "calculate_score (int k) level =
     (if k = 0 then 0 else if k = 1 then 40 else if k = 2 then 100
      else if k = 3 then 300 else if k = 4 then 1200 else 0) * (level + 1)"
  by (auto simp: calculate_score_def base_scores_def)

lemma place_current_piece_first:
  assumes "place_piece (player1_board g) (player1_current_piece g) (player1_piece_pos g)
             (player1_piece_rotation g) = Inr placed"
    and "place_current_piece (player1_id g) g r = Inr (res, g', r')"
  shows "player1_id g' = player1_id g \<and>
         player1_board g' = fst (clear_lines placed) \<and>
         player1_score g' =
           player1_score g + calculate_score (snd (clear_lines placed)) (player1_level g) \<and>
         player1_current_piece g' = player1_next_piece g \<and>
         player1_piece_pos g' = (0, 4) \<and> player1_piece_rotation g' = 0 \<and>
         (is_valid_position_tetris (fst (clear_lines placed)) (player1_next_piece g) (0, 4) 0
            = Inr False \<longrightarrow> game_over g' \<and> winner g' = Some (player2_id g))"
proof (cases "is_valid_position_tetris (fst (clear_lines placed)) (player1_next_piece g) (0, 4) 0")
  case (Inl e)
  with assms show ?thesis
    by (simp add: place_current_piece_def Let_def split: prod.splits)
next
  case (Inr ok)
  with assms show ?thesis
    by (cases ok) (auto simp add: place_current_piece_def Let_def split: prod.splits)
qed

lemma place_current_piece_second:
  assumes "player2_id g \<noteq> player1_id g"
    and "place_piece (player2_board g) (player2_current_piece g) (player2_piece_pos g)
             (player2_piece_rotation g) = Inr placed"
    and "place_current_piece (player2_id g) g r = Inr (res, g', r')"
  shows "player1_id g' = player1_id g \<and>
         player2_board g' = fst (clear_lines placed) \<and>
         player2_score g' =
           player2_score g + calculate_score (snd (clear_lines placed)) (player2_level g) \<and>
         player2_current_piece g' = player2_next_piece g \<and>
         player2_piece_pos g' = (0, 4) \<and> player2_piece_rotation g' = 0 \<and>
         (is_valid_position_tetris (fst (clear_lines placed)) (player2_next_piece g) (0, 4) 0
            = Inr False \<longrightarrow> game_over g' \<and> winner g' = Some (player1_id g))"
proof (cases "is_valid_position_tetris (fst (clear_lines placed)) (player2_next_piece g) (0, 4) 0")
  case (Inl e)
  with assms show ?thesis
    by (simp add: place_current_piece_def Let_def split: prod.splits)
next
  case (Inr ok)
  with assms show ?thesis
    by (cases ok) (auto simp add: place_current_piece_def Let_def split: prod.splits)
qed

lemma place_current_piece_places:
  assumes "pid = player1_id g \<or> pid = player2_id g"
    and "place_current_piece pid g r = Inr (res, g', r')"
  shows "\<exists>placed. place_piece (board_of pid g) (current_piece_of pid g) (piece_pos_of pid g)
           (piece_rotation_of pid g) = Inr placed"
proof (cases "place_piece (board_of pid g) (current_piece_of pid g) (piece_pos_of pid g)
                (piece_rotation_of pid g)")
  case (Inl e)
  show ?thesis
  proof (cases "pid = player1_id g")
    case True
    with Inl assms(2) show ?thesis
      by (simp add: place_current_piece_def board_of_def current_piece_of_def piece_pos_of_def
          piece_rotation_of_def Let_def)
  next
    case False
    with assms(1) have "pid = player2_id g" by simp
    with False Inl assms(2) show ?thesis
      by (simp add: place_current_piece_def board_of_def current_piece_of_def piece_pos_of_def
          piece_rotation_of_def Let_def)
  qed
next
  case (Inr placed)
  then show ?thesis by blast
qed

text \<open>What a lock leaves for the acting player, whichever of the two it is.\<close>

lemma place_current_piece_result:
  assumes "pid = player1_id g \<or> pid = player2_id g"
    and "place_piece (board_of pid g) (current_piece_of pid g) (piece_pos_of pid g)
           (piece_rotation_of pid g) = Inr placed"
    and "place_current_piece pid g r = Inr (res, g', r')"
  shows "board_of pid g' = fst (clear_lines placed) \<and>
         score_of pid g' =
           score_of pid g + calculate_score (snd (clear_lines placed)) (level_of pid g) \<and>
         piece_pos_of pid g' = (0, 4) \<and> piece_rotation_of pid g' = 0 \<and>
         (is_valid_position_tetris (board_of pid g') (current_piece_of pid g') (0, 4) 0
            = Inr False \<longrightarrow> game_over g' \<and> winner g' = Some (opponent_of pid g))"
proof (cases "pid = player1_id g")
  case True
  with assms(2,3) place_current_piece_first [of g placed r res g' r'] show ?thesis
    by (simp add: board_of_def current_piece_of_def piece_pos_of_def piece_rotation_of_def
        score_of_def level_of_def opponent_of_def)
next
  case False
  with assms(1) have p: "pid = player2_id g" "player2_id g \<noteq> player1_id g"
    by auto
  with assms(2,3) place_current_piece_second [of g placed r res g' r'] show ?thesis
    by (simp add: board_of_def current_piece_of_def piece_pos_of_def piece_rotation_of_def
        score_of_def level_of_def opponent_of_def)
qed

text \<open>A \<^verbatim>\<open>down\<close> move that is not legal is the lock.\<close>

lemma move_piece_down_locks:
  assumes "\<not> game_over g"
    and "pid = player1_id g \<or> pid = player2_id g"
    and "is_valid_position_tetris (board_of pid g) (current_piece_of pid g)
           (fst (piece_pos_of pid g) + 1, snd (piece_pos_of pid g)) (piece_rotation_of pid g)
         = Inr False"
  shows "move_piece pid ''down'' g r = place_current_piece pid g r"
  using assms
  by (auto simp: move_piece_def candidate_def Let_def board_of_def current_piece_of_def
      piece_pos_of_def piece_rotation_of_def)

subsection \<open>A lock on boards of the fixed size raises no exception\<close>

lemma check_cells_total:
  "wf_board b \<Longrightarrow> \<exists>v. check_cells b cs = Inr v"
proof (induction cs)
  case Nil
  then show ?case by auto
next
  case (Cons c cs)
  obtain new_row new_col where c: "c = (new_row, new_col)" by (cases c)
  show ?case
  proof (cases "new_row < 0 \<or> new_row \<ge> board_height \<or> new_col < 0 \<or> new_col \<ge> board_width")
    case True
    then show ?thesis by (auto simp: c)
  next
    case False
    have r: "nat new_row < length b"
      using False Cons.prems unfolding wf_board_def by linarith
    then have "b ! nat new_row \<in> set b" by simp
    then have "int (length (b ! nat new_row)) = board_width"
      using Cons.prems unfolding wf_board_def by blast
    then have "nat new_col < length (b ! nat new_row)"
      using False by linarith
    with r False Cons show ?thesis
      by (auto simp: c cell_at_def)
  qed
qed

lemma write_cells_total:
  "wf_board b \<Longrightarrow> \<exists>b'. write_cells b t cs = Inr b' \<and> wf_board b'"
proof (induction cs arbitrary: b)
  case Nil
  then show ?case by simp
next
  case (Cons c cs)
  obtain new_row new_col where c: "c = (new_row, new_col)" by (cases c)
  show ?case
  proof (cases "0 \<le> new_row \<and> new_row < board_height \<and> 0 \<le> new_col \<and> new_col < board_width")
    case False
    then have "write_cells b t (c # cs) = write_cells b t cs"
      unfolding c by (subst write_cells.simps) (simp only: if_False)
    with Cons.IH [OF Cons.prems] show ?thesis by simp
  next
    case True
    have r: "nat new_row < length b"
      using True Cons.prems unfolding wf_board_def by linarith
    then have m: "b ! nat new_row \<in> set b" by simp
    then have "int (length (b ! nat new_row)) = board_width"
      using Cons.prems unfolding wf_board_def by blast
    then have k: "nat new_col < length (b ! nat new_row)"
      using True by linarith
    let ?b = "b[nat new_row := (b ! nat new_row)[nat new_col := t]]"
    have "set ?b \<subseteq> insert ((b ! nat new_row)[nat new_col := t]) (set b)"
      by (rule set_update_subset_insert)
    with Cons.prems m have "wf_board ?b"
      by (auto simp: wf_board_def)
    have "write_cells b t (c # cs) = write_cells ?b t cs"
      unfolding c using r k True by (subst write_cells.simps) (simp only: if_True simp_thms)
    with Cons.IH [OF \<open>wf_board ?b\<close>] show ?thesis by simp
  qed
qed

lemma is_valid_position_total:
  "wf_board b \<Longrightarrow> shapes p \<noteq> [] \<Longrightarrow> \<exists>v. is_valid_position_tetris b p pos rot = Inr v"
  using check_cells_total [of b]
  by (simp add: is_valid_position_tetris_def get_piece_shape_def)

lemma place_piece_total:
  "wf_board b \<Longrightarrow> shapes p \<noteq> [] \<Longrightarrow> \<exists>b'. place_piece b p pos rot = Inr b' \<and> wf_board b'"
  using write_cells_total [of b]
  by (simp add: place_piece_def get_piece_shape_def)

lemma clear_lines_wf:
  assumes "wf_board b"
  shows "wf_board (fst (clear_lines b))"
proof -
  have len: "int (length b) = board_height"
    using assms by (simp add: wf_board_def)
  have "int (length (filter complete b) + length (filter (\<lambda>row. \<not> complete row) b)) = board_height"
    using len complete_rows_split [of b] by simp
  moreover have "int (length empty_row) = board_width"
    by (simp add: empty_row_def board_width_def)
  ultimately show ?thesis
    using assms by (auto simp: clear_lines_eq [OF len] wf_board_def)
qed

lemma place_current_piece_total:
  assumes "pid = player1_id g \<or> pid = player2_id g"
    and "wf_board (board_of pid g)"
    and "shapes (current_piece_of pid g) \<noteq> []"
    and "shapes (if pid = player1_id g then player1_next_piece g else player2_next_piece g) \<noteq> []"
  shows "\<exists>res g' r'. place_current_piece pid g r = Inr (res, g', r')"
proof -
  obtain placed where p: "place_piece (board_of pid g) (current_piece_of pid g) (piece_pos_of pid g)
      (piece_rotation_of pid g) = Inr placed" and w: "wf_board placed"
    using place_piece_total [OF assms(2,3)] by blast
  obtain new_board lines_cleared where cl: "clear_lines placed = (new_board, lines_cleared)"
    by (cases "clear_lines placed")
  have "wf_board new_board"
    using clear_lines_wf [OF w] cl by simp
  then obtain ok where v: "is_valid_position_tetris new_board
      (if pid = player1_id g then player1_next_piece g else player2_next_piece g) (0, 4) 0 = Inr ok"
    using is_valid_position_total [OF _ assms(4)] by blast
  obtain fresh r' where f: "get_random_piece r = (fresh, r')"
    by (cases "get_random_piece r")
  show ?thesis
  proof (cases "pid = player1_id g")
    case True
    with p cl v f show ?thesis
      by (simp add: place_current_piece_def board_of_def current_piece_of_def piece_pos_of_def
          piece_rotation_of_def Let_def)
  next
    case False
    with assms(1) have "pid = player2_id g" by simp
    with False p cl v f show ?thesis
      by (simp add: place_current_piece_def board_of_def current_piece_of_def piece_pos_of_def
          piece_rotation_of_def Let_def)
  qed
qed

subsection \<open>Score and cleared rows\<close>

lemma one_gap_places:
  "place_piece (board_of 1 one_gap_tetris) (current_piece_of 1 one_gap_tetris)
     (piece_pos_of 1 one_gap_tetris) (piece_rotation_of 1 one_gap_tetris)
   = Inr (replicate 19 empty_row @ [''JJJJIIIILL''])"
  by code_simp

lemma one_gap_returns:
  "\<exists>res g' r'. place_current_piece 1 one_gap_tetris all_I = Inr (res, g', r')"
proof -
  have "case place_current_piece 1 one_gap_tetris all_I of Inl e \<Rightarrow> False | Inr x \<Rightarrow> True"
    by code_simp
  then show ?thesis
    by (cases "place_current_piece 1 one_gap_tetris all_I") auto
qed

lemma one_gap_facts:
  "player1_id one_gap_tetris = 1" "int (length (board_of 1 one_gap_tetris)) = board_height"
  "score_of 1 one_gap_tetris = 0" "level_of 1 one_gap_tetris = 1"
  "filter complete (replicate 19 empty_row @ [''JJJJIIIILL'']) = [''JJJJIIIILL'']"
  "filter (\<lambda>row. \<not> complete row) (replicate 19 empty_row @ [''JJJJIIIILL'']) = replicate 19 empty_row"
  by code_simp+

text \<open>
  Claim C5. A lock by a player of the match whose board has the fixed height: with \<open>k\<close> the
  number of complete rows of the board once the piece is written into it, the player's
  score grows by the table value of \<open>k\<close> (40, 100, 300, 1200 for 1 to 4 rows, 0 for no row)
  times the level before the lock plus one; the new board is \<open>k\<close> empty rows on top of the
  rows that were not complete, in their order, and it has the fixed height again. On a
  board of the fixed size the lock returns (\<open>place_current_piece_total\<close>).
\<close>

theorem lock_scores_and_clears:
  assumes "pid = player1_id g \<or> pid = player2_id g"
    and "int (length (board_of pid g)) = board_height"
    and "place_piece (board_of pid g) (current_piece_of pid g) (piece_pos_of pid g)
           (piece_rotation_of pid g) = Inr placed"
    and "place_current_piece pid g r = Inr (res, g', r')"
  shows "score_of pid g' =
           score_of pid g +
           (let k = length (filter complete placed)
            in if k = 0 then 0 else if k = 1 then 40 else if k = 2 then 100
               else if k = 3 then 300 else if k = 4 then 1200 else 0) * (level_of pid g + 1) \<and>
         board_of pid g' =
           replicate (length (filter complete placed)) empty_row @
           filter (\<lambda>row. \<not> complete row) placed \<and>
         int (length (board_of pid g')) = board_height"
proof -
  have len: "int (length placed) = board_height"
    using place_piece_length [OF assms(3)] assms(2) by simp
  have b: "board_of pid g' =
             replicate (length (filter complete placed)) empty_row @
             filter (\<lambda>row. \<not> complete row) placed"
    and s: "score_of pid g' =
              score_of pid g + calculate_score (int (length (filter complete placed))) (level_of pid g)"
    using place_current_piece_result [OF assms(1,3,4)] clear_lines_eq [OF len] by simp_all
  have "length (board_of pid g') = length placed"
    using complete_rows_split [of placed] by (simp add: b)
  with len b s show ?thesis
    by (simp add: calculate_score_table Let_def)
qed

theorem lock_scores_and_clears_witness:
  "case place_current_piece 1 one_gap_tetris all_I of
     Inl e \<Rightarrow> False
   | Inr (res, g', r') \<Rightarrow>
       score_of 1 g' = 80 \<and> board_of 1 g' = empty_row # replicate 19 empty_row \<and>
       length (board_of 1 g') = 20"
proof -
  obtain res g' r' where e: "place_current_piece 1 one_gap_tetris all_I = Inr (res, g', r')"
    using one_gap_returns by blast
  have v: "1 = player1_id one_gap_tetris \<or> 1 = player2_id one_gap_tetris"
    using one_gap_facts(1) by simp
  have "score_of 1 g' = 80 \<and> board_of 1 g' = empty_row # replicate 19 empty_row \<and>
        int (length (board_of 1 g')) = board_height"
    using lock_scores_and_clears [OF v one_gap_facts(2) one_gap_places e]
    by (simp only: one_gap_facts Let_def) (simp add: board_height_def)
  then show ?thesis
    by (simp add: e board_height_def)
qed

subsection \<open>A spawn that does not fit\<close>

lemma stacked_returns:
  "\<exists>res g' r'. place_current_piece 1 stacked_tetris all_O = Inr (res, g', r') \<and>
     is_valid_position_tetris (board_of 1 g') (current_piece_of 1 g') (0, 4) 0 = Inr False"
proof -
  have "case place_current_piece 1 stacked_tetris all_O of
          Inl e \<Rightarrow> False
        | Inr (res, g', r') \<Rightarrow>
            is_valid_position_tetris (board_of 1 g') (current_piece_of 1 g') (0, 4) 0 = Inr False"
    by code_simp
  then show ?thesis
    by (cases "place_current_piece 1 stacked_tetris all_O") auto
qed

lemma stacked_facts:
  "player1_id stacked_tetris = 1" "opponent_of 1 stacked_tetris = 2"
  "\<not> game_over stacked_tetris"
  "is_valid_position_tetris (board_of 1 stacked_tetris) (current_piece_of 1 stacked_tetris)
     (fst (piece_pos_of 1 stacked_tetris) + 1, snd (piece_pos_of 1 stacked_tetris))
     (piece_rotation_of 1 stacked_tetris) = Inr False"
  by code_simp+

text \<open>
  Claim C6. After a lock by a player of the match, if the piece just spawned does not fit
  at the spawn point (row 0, column 4, rotation 0) on the new board, the game is over and
  the winner is the opponent of the player who locked. The spawned piece does stand at the
  spawn point. The lock is \<open>place_current_piece\<close>, which \<open>move_piece\<close> runs for a \<^verbatim>\<open>down\<close>
  move that is not legal (\<open>move_piece_down_locks\<close>).
\<close>

theorem blocked_spawn_ends_game:
  assumes "pid = player1_id g \<or> pid = player2_id g"
    and "place_current_piece pid g r = Inr (res, g', r')"
    and "is_valid_position_tetris (board_of pid g') (current_piece_of pid g') (0, 4) 0 = Inr False"
  shows "game_over g' \<and> winner g' = Some (opponent_of pid g) \<and>
         piece_pos_of pid g' = (0, 4) \<and> piece_rotation_of pid g' = 0"
proof -
  obtain placed where
    "place_piece (board_of pid g) (current_piece_of pid g) (piece_pos_of pid g)
       (piece_rotation_of pid g) = Inr placed"
    using place_current_piece_places [OF assms(1,2)] by blast
  from place_current_piece_result [OF assms(1) this assms(2)] assms(3) show ?thesis
    by simp
qed

theorem blocked_spawn_ends_game_witness:
  "\<not> game_over stacked_tetris \<and>
   (case move_piece 1 ''down'' stacked_tetris all_O of
      Inl e \<Rightarrow> False
    | Inr (res, g', r') \<Rightarrow> game_over g' \<and> winner g' = Some 2)"
proof -
  obtain res g' r' where e: "place_current_piece 1 stacked_tetris all_O = Inr (res, g', r')"
    and b: "is_valid_position_tetris (board_of 1 g') (current_piece_of 1 g') (0, 4) 0 = Inr False"
    using stacked_returns by blast
  have v: "1 = player1_id stacked_tetris \<or> 1 = player2_id stacked_tetris"
    using stacked_facts(1) by simp
  have m: "move_piece 1 ''down'' stacked_tetris all_O = place_current_piece 1 stacked_tetris all_O"
    using move_piece_down_locks [OF stacked_facts(3) v stacked_facts(4)] .
  have "game_over g' \<and> winner g' = Some 2"
    using blocked_spawn_ends_game [OF v e b]
    by (simp only: stacked_facts)
  then show ?thesis
    by (simp add: m e stacked_facts(3))
qed

section \<open>Tetris: \<open>drop_piece\<close>\<close>

text \<open>
  In a new engine whose pieces are all \<^verbatim>\<open>O\<close>, eighteen \<^verbatim>\<open>down\<close> moves of player 1 lock
  exactly one piece: four cells of the board hold a block and the game goes on.
\<close>

lemma one_lock_by_hand:
  "case downs 18 1 fresh_tetris all_O of
     Inl e \<Rightarrow> False
   | Inr (g, r) \<Rightarrow>
       \<not> game_over g \<and> blocks (player1_board g) = 4 \<and> player1_piece_pos g = (0, 4) \<and>
       player1_board g = replicate 18 empty_row @ replicate 2 ''.....OO...''"
  by code_simp

text \<open>
  Claim C2, at the engine above. The claim says that \<open>drop_piece\<close> stops after exactly
  one lock. \<open>place_current_piece\<close> reports success, so the loop of \<open>drop_piece\<close> does not
  leave at the lock: it goes on dropping the pieces that follow until \<open>move_piece\<close>
  reports the game over. Here it locks nine pieces (36 cells), and player 1, who asked for
  one drop, has lost the game.
\<close>

theorem drop_piece_runs_to_game_over:
  "case drop_piece 1 fresh_tetris all_O of
     Some (Inr (res, g, r)) \<Rightarrow>
       success res \<and> game_over g \<and> winner g = Some 2 \<and> blocks (player1_board g) = 36 \<and>
       player1_board g = replicate 2 empty_row @ replicate 18 ''.....OO...''
   | _ \<Rightarrow> False"
  by code_simp

section \<open>After the game is over\<close>

lemma move_piece_when_over:
  "game_over g \<Longrightarrow> move_piece pid d g r = Inr (reply False ''Game is over'', g, r)"
  by (simp add: move_piece_def)

lemma move_snake_when_over:
  "game_over g \<Longrightarrow> move_snake pid d g = (reply False ''Game is over'', g)"
  by (simp add: move_snake_def)

lemma update_game_state_when_over:
  "game_over g \<Longrightarrow> update_game_state g r = Inr (reply False ''Game is over'', g, r)"
  by (simp add: update_game_state_def)

lemma move_paddle_when_over:
  "game_over g \<Longrightarrow> move_paddle pid d g = (reply False ''Game is over'', g)"
  by (simp add: move_paddle_def)

lemma update_ball_when_over:
  "game_over g \<Longrightarrow> update_ball g r = (reply False ''Game is over'', g, r)"
  by (simp add: update_ball_def)

lemma simulate_turn_when_over:
  "game_over g \<Longrightarrow> simulate_turn g r = (reply False ''Game is over'', g, r)"
  by (simp add: simulate_turn_def)

text \<open>\<open>drop_piece\<close> changes nothing either, and draws nothing, but it reports success.\<close>

lemma drop_piece_when_over:
  "game_over g \<Longrightarrow> drop_piece pid g r = Some (Inr (reply True ''Piece dropped'', g, r))"
  by (simp add: drop_piece_def drop_piece_loop.simps move_piece_when_over reply_def)

text \<open>
  Claim C8, at a Tetris engine whose game is over. The claim says that every move or tick
  made then is reported as a failure and changes nothing. The move and tick methods above
  do so; \<open>drop_piece\<close> leaves the engine as it was and answers with
  \<^verbatim>\<open>success\<close> true and the message \<^verbatim>\<open>Piece dropped\<close>.
\<close>

theorem drop_piece_after_game_over:
  "game_over over_tetris \<and>
   drop_piece 1 over_tetris all_O =
     Some (Inr (\<lparr>success = True, message = ''Piece dropped'', extras = []\<rparr>, over_tetris, all_O))"
  using drop_piece_when_over [of over_tetris 1 all_O]
  by (simp add: over_tetris_def reply_def)

section \<open>Snake: one tick\<close>

lemma spawn_food_from_food_only:
  "spawn_food_from a g r = (ok, g', r') \<Longrightarrow> g' = g\<lparr>food_positions := food_positions g'\<rparr>"
proof (induction a g r rule: spawn_food_from.induct)
  case (1 attempts g r)
  show ?case
  proof (cases "attempts < 50")
    case False
    with "1.prems" show ?thesis
      by (subst (asm) spawn_food_from.simps) simp
  next
    case True
    obtain x r1 where x: "randint 0 (snake_board_width - 1) r = (x, r1)"
      by (cases "randint 0 (snake_board_width - 1) r")
    obtain y r2 where y: "randint 0 (snake_board_height - 1) r1 = (y, r2)"
      by (cases "randint 0 (snake_board_height - 1) r1")
    show ?thesis
    proof (cases "PyTuple x y \<notin> set (player1_snake g) \<and> PyTuple x y \<notin> set (player2_snake g) \<and>
                  PyTuple x y \<notin> set (food_positions g)")
      case free: True
      with "1.prems" True x y show ?thesis
        by (subst (asm) spawn_food_from.simps) auto
    next
      case taken: False
      with "1.prems" True x y have "spawn_food_from (attempts + 1) g r2 = (ok, g', r')"
        by (subst (asm) spawn_food_from.simps) auto
      with "1.IH" [OF True x [symmetric] refl y [symmetric] refl] taken show ?thesis
        by blast
    qed
  qed
qed

lemma spawn_food_food_only:
  "spawn_food g r = (ok, g', r') \<Longrightarrow> g' = g\<lparr>food_positions := food_positions g'\<rparr>"
  unfolding spawn_food_def by (rule spawn_food_from_food_only)

text \<open>The move of player 1's snake: what it leaves of the engine, food apart.\<close>

lemma move_first_summary:
  assumes s: "player1_snake g = h # t"
    and n: "new_head_of (player1_direction g) h = Some nh"
  shows "\<exists>res g' r'. move_player_snake (player1_id g) g r = Inr (res, g', r') \<and>
           player1_alive g' =
             (player1_alive g \<and> is_valid_position_snake (cell_x nh) (cell_y nh) \<and>
              nh \<notin> set (h # t) \<and> nh \<notin> set (player2_snake g)) \<and>
           player1_snake g' =
             (if is_valid_position_snake (cell_x nh) (cell_y nh) \<and>
                 nh \<notin> set (h # t) \<and> nh \<notin> set (player2_snake g)
              then nh # (if nh \<in> set (food_positions g) then h # t else butlast (h # t))
              else h # t) \<and>
           player2_snake g' = player2_snake g \<and> player2_alive g' = player2_alive g \<and>
           player2_direction g' = player2_direction g \<and>
           player1_id g' = player1_id g \<and> player2_id g' = player2_id g \<and>
           game_over g' = game_over g \<and> turn_count g' = turn_count g"
proof (cases "is_valid_position_snake (cell_x nh) (cell_y nh) \<and>
              nh \<notin> set (h # t) \<and> nh \<notin> set (player2_snake g)")
  case False
  then consider
      (wall) "\<not> is_valid_position_snake (cell_x nh) (cell_y nh)"
    | (self) "is_valid_position_snake (cell_x nh) (cell_y nh)" "nh \<in> set (h # t)"
    | (opponent) "is_valid_position_snake (cell_x nh) (cell_y nh)" "nh \<notin> set (h # t)"
        "nh \<in> set (player2_snake g)"
    by blast
  then show ?thesis
  proof cases
    case wall
    with s n show ?thesis by (simp add: move_player_snake_def Let_def)
  next
    case self
    with s n show ?thesis by (simp add: move_player_snake_def Let_def)
  next
    case opponent
    with s n show ?thesis by (simp add: move_player_snake_def Let_def)
  qed
next
  case ok: True
  show ?thesis
  proof (cases "nh \<in> set (food_positions g)")
    case False
    with ok s n show ?thesis
      by (simp add: move_player_snake_def Let_def)
  next
    case True
    let ?g3 = "g\<lparr>player1_snake := nh # h # t,
                  food_positions := remove1 nh (food_positions g),
                  player1_score := player1_score g + 10\<rparr>"
    obtain spawned g4 r4 where sp: "spawn_food ?g3 r = (spawned, g4, r4)"
      by (cases "spawn_food ?g3 r") auto
    have m: "move_player_snake (player1_id g) g r =
               Inr (reply True ''Moved and ate food (+10 points)'', g4, r4)"
      using ok True s n sp by (simp add: move_player_snake_def Let_def)
    have g4: "g4 = ?g3\<lparr>food_positions := food_positions g4\<rparr>"
      using spawn_food_food_only [OF sp] .
    have "player1_alive g4 = player1_alive g" "player1_snake g4 = nh # h # t"
      "player2_snake g4 = player2_snake g" "player2_alive g4 = player2_alive g"
      "player2_direction g4 = player2_direction g" "player1_id g4 = player1_id g"
      "player2_id g4 = player2_id g" "game_over g4 = game_over g" "turn_count g4 = turn_count g"
      by (subst g4, simp)+
    with m ok True show ?thesis
      by simp
  qed
qed

text \<open>The same for player 2, whose identifier differs from player 1's.\<close>

lemma move_second_summary:
  assumes d: "player2_id g \<noteq> player1_id g"
    and s: "player2_snake g = h # t"
    and n: "new_head_of (player2_direction g) h = Some nh"
  shows "\<exists>res g' r'. move_player_snake (player2_id g) g r = Inr (res, g', r') \<and>
           player2_alive g' =
             (player2_alive g \<and> is_valid_position_snake (cell_x nh) (cell_y nh) \<and>
              nh \<notin> set (h # t) \<and> nh \<notin> set (player1_snake g)) \<and>
           player2_snake g' =
             (if is_valid_position_snake (cell_x nh) (cell_y nh) \<and>
                 nh \<notin> set (h # t) \<and> nh \<notin> set (player1_snake g)
              then nh # (if nh \<in> set (food_positions g) then h # t else butlast (h # t))
              else h # t) \<and>
           player1_snake g' = player1_snake g \<and> player1_alive g' = player1_alive g \<and>
           player1_direction g' = player1_direction g \<and>
           player1_id g' = player1_id g \<and> player2_id g' = player2_id g \<and>
           game_over g' = game_over g \<and> turn_count g' = turn_count g"
proof (cases "is_valid_position_snake (cell_x nh) (cell_y nh) \<and>
              nh \<notin> set (h # t) \<and> nh \<notin> set (player1_snake g)")
  case False
  then consider
      (wall) "\<not> is_valid_position_snake (cell_x nh) (cell_y nh)"
    | (self) "is_valid_position_snake (cell_x nh) (cell_y nh)" "nh \<in> set (h # t)"
    | (opponent) "is_valid_position_snake (cell_x nh) (cell_y nh)" "nh \<notin> set (h # t)"
        "nh \<in> set (player1_snake g)"
    by blast
  then show ?thesis
  proof cases
    case wall
    with d s n show ?thesis by (simp add: move_player_snake_def Let_def)
  next
    case self
    with d s n show ?thesis by (simp add: move_player_snake_def Let_def)
  next
    case opponent
    with d s n show ?thesis by (simp add: move_player_snake_def Let_def)
  qed
next
  case ok: True
  show ?thesis
  proof (cases "nh \<in> set (food_positions g)")
    case False
    with ok d s n show ?thesis
      by (simp add: move_player_snake_def Let_def)
  next
    case True
    let ?g3 = "g\<lparr>player2_snake := nh # h # t,
                  food_positions := remove1 nh (food_positions g),
                  player2_score := player2_score g + 10\<rparr>"
    obtain spawned g4 r4 where sp: "spawn_food ?g3 r = (spawned, g4, r4)"
      by (cases "spawn_food ?g3 r") auto
    have m: "move_player_snake (player2_id g) g r =
               Inr (reply True ''Moved and ate food (+10 points)'', g4, r4)"
      using ok True d s n sp by (simp add: move_player_snake_def Let_def)
    have g4: "g4 = ?g3\<lparr>food_positions := food_positions g4\<rparr>"
      using spawn_food_food_only [OF sp] .
    have "player2_alive g4 = player2_alive g" "player2_snake g4 = nh # h # t"
      "player1_snake g4 = player1_snake g" "player1_alive g4 = player1_alive g"
      "player1_direction g4 = player1_direction g" "player1_id g4 = player1_id g"
      "player2_id g4 = player2_id g" "game_over g4 = game_over g" "turn_count g4 = turn_count g"
      by (subst g4, simp)+
    with m ok True show ?thesis
      by simp
  qed
qed

lemma check_game_over_snake_keeps:
  "player1_snake (check_game_over_snake g) = player1_snake g"
  "player2_snake (check_game_over_snake g) = player2_snake g"
  "player1_alive (check_game_over_snake g) = player1_alive g"
  "player2_alive (check_game_over_snake g) = player2_alive g"
  "turn_count (check_game_over_snake g) = turn_count g"
  "player1_score (check_game_over_snake g) = player1_score g"
  "player2_score (check_game_over_snake g) = player2_score g"
  by (simp_all add: check_game_over_snake_def Let_def)

lemma facing_snakes_reached:
  "case ticks_snake 4 calm_snake fives of Inl e \<Rightarrow> False | Inr (g, r) \<Rightarrow> g = facing_snakes"
  by code_simp

lemma facing_snakes_value:
  "facing_snakes =
     \<lparr>session_id = ''s'', player1_id = 1, player2_id = 2, player1_score = 0,
      player2_score = 0, game_over = False, winner = None,
      player1_snake = [PyTuple 7 6, PyTuple 7 5, PyTuple 7 4],
      player2_snake = [PyTuple 7 8, PyTuple 7 9, PyTuple 7 10],
      player1_direction = ''right'', player2_direction = ''left'',
      player1_alive = True, player2_alive = True,
      food_positions = [PyTuple 0 0, PyTuple 1 1], turn_count = 4\<rparr>"
  by code_simp

text \<open>
  Claim C3 as stated, at the engine \<open>facing_snakes\<close>, which four ticks of a new engine
  reach (\<open>facing_snakes_reached\<close>). Both prospective heads are the empty cell \<open>(7, 7)\<close>,
  which lies in neither snake when the tick starts, so by the rule the claim states
  player 2 survives. In \<open>update_game_state\<close> player 1 moves first and player 2's head is
  then looked up in player 1's snake as that move left it: player 2 is eliminated and
  player 1 wins.
\<close>

theorem second_snake_meets_moved_first:
  "spec_player2_survives facing_snakes \<and>
   (case update_game_state facing_snakes fives of
      Inl e \<Rightarrow> False
    | Inr (res, g', r') \<Rightarrow>
        message res = ''P1: Moved | P2: Hit opponent - eliminated!'' \<and>
        player1_alive g' \<and> \<not> player2_alive g' \<and> game_over g' \<and> winner g' = Some 1)"
  by code_simp

text \<open>
  Claim C3 as amended. In a tick of a game that is not over, with both snakes alive, the
  two players distinct and both stored headings among the four, player 1 moves first:
  its prospective head is checked against the field, its own snake and player 2's snake,
  all as they are when the tick starts. Player 2 moves second: its prospective head is
  checked against the field, its own snake, and player 1's snake as it is at the end of
  the tick, that is with player 1's new head added and, unless player 1 ate, its tail cell
  dropped (or unchanged when player 1 was eliminated). In particular a snake that stays in
  the field and off its own body is eliminated by the other snake only when its
  prospective head is a cell of that body as just described. The tick raises no exception.
\<close>

theorem tick_moves_first_then_second:
  assumes "\<not> game_over g" and "player1_alive g" and "player2_alive g"
    and "player2_id g \<noteq> player1_id g"
    and "player1_snake g = h1 # t1" and "player2_snake g = h2 # t2"
    and "new_head_of (player1_direction g) h1 = Some nh1"
    and "new_head_of (player2_direction g) h2 = Some nh2"
  shows "\<exists>res g' r'. update_game_state g r = Inr (res, g', r') \<and>
           player1_alive g' =
             (is_valid_position_snake (cell_x nh1) (cell_y nh1) \<and>
              nh1 \<notin> set (h1 # t1) \<and> nh1 \<notin> set (h2 # t2)) \<and>
           player1_snake g' =
             (if player1_alive g'
              then nh1 # (if nh1 \<in> set (food_positions g) then h1 # t1 else butlast (h1 # t1))
              else h1 # t1) \<and>
           player2_alive g' =
             (is_valid_position_snake (cell_x nh2) (cell_y nh2) \<and>
              nh2 \<notin> set (h2 # t2) \<and> nh2 \<notin> set (player1_snake g'))"
proof -
  obtain res1 g1 r1 where m1: "move_player_snake (player1_id g) g r = Inr (res1, g1, r1)"
    and a1: "player1_alive g1 =
               (is_valid_position_snake (cell_x nh1) (cell_y nh1) \<and>
                nh1 \<notin> set (h1 # t1) \<and> nh1 \<notin> set (h2 # t2))"
    and s1: "player1_snake g1 =
               (if is_valid_position_snake (cell_x nh1) (cell_y nh1) \<and>
                   nh1 \<notin> set (h1 # t1) \<and> nh1 \<notin> set (h2 # t2)
                then nh1 # (if nh1 \<in> set (food_positions g) then h1 # t1 else butlast (h1 # t1))
                else h1 # t1)"
    and k1: "player2_snake g1 = h2 # t2" "player2_alive g1" "player2_direction g1 = player2_direction g"
      "player1_id g1 = player1_id g" "player2_id g1 = player2_id g"
    using move_first_summary [OF assms(5) assms(7), of r] assms(2,3,6) by auto
  have d1: "player2_id g1 \<noteq> player1_id g1"
    using k1 assms(4) by simp
  have n2: "new_head_of (player2_direction g1) h2 = Some nh2"
    using k1 assms(8) by simp
  obtain res2 g2 r2 where m2: "move_player_snake (player2_id g1) g1 r1 = Inr (res2, g2, r2)"
    and a2: "player2_alive g2 =
               (is_valid_position_snake (cell_x nh2) (cell_y nh2) \<and>
                nh2 \<notin> set (h2 # t2) \<and> nh2 \<notin> set (player1_snake g1))"
    and k2: "player1_snake g2 = player1_snake g1" "player1_alive g2 = player1_alive g1"
    using move_second_summary [OF d1 k1(1) n2, of r1] k1(2) by auto
  let ?g3 = "check_game_over_snake g2"
  let ?g4 = "?g3\<lparr>turn_count := turn_count ?g3 + 1\<rparr>"
  have u: "update_game_state g r =
             Inr (\<lparr>success = True, message = join '' | '' ([''P1: '' @ message res1] @ [''P2: '' @ message res2]),
                   extras = [(''turn'', turn_count ?g4)]\<rparr>, ?g4, r2)"
    using assms(1,2) m1 k1(2) m2 k1(5) by (simp add: update_game_state_def Let_def)
  have "player1_alive ?g4 = player1_alive g1" "player1_snake ?g4 = player1_snake g1"
    "player2_alive ?g4 = player2_alive g2"
    using k2 by (simp_all add: check_game_over_snake_keeps)
  with u a1 s1 a2 show ?thesis
    by simp
qed

theorem tick_moves_first_then_second_witness:
  "\<not> game_over facing_snakes \<and> player1_alive facing_snakes \<and> player2_alive facing_snakes \<and>
   (\<exists>res g' r'. update_game_state facing_snakes fives = Inr (res, g', r') \<and>
      player1_alive g' \<and>
      player1_snake g' = [PyTuple 7 7, PyTuple 7 6, PyTuple 7 5] \<and>
      \<not> player2_alive g')"
proof -
  have h: "\<not> game_over facing_snakes" "player1_alive facing_snakes" "player2_alive facing_snakes"
    "player2_id facing_snakes \<noteq> player1_id facing_snakes"
    "player1_snake facing_snakes = PyTuple 7 6 # [PyTuple 7 5, PyTuple 7 4]"
    "player2_snake facing_snakes = PyTuple 7 8 # [PyTuple 7 9, PyTuple 7 10]"
    "new_head_of (player1_direction facing_snakes) (PyTuple 7 6) = Some (PyTuple 7 7)"
    "new_head_of (player2_direction facing_snakes) (PyTuple 7 8) = Some (PyTuple 7 7)"
    by (simp_all add: facing_snakes_value new_head_of_def)
  have f: "food_positions facing_snakes = [PyTuple 0 0, PyTuple 1 1]"
    by (simp add: facing_snakes_value)
  obtain res g' r' where u: "update_game_state facing_snakes fives = Inr (res, g', r')"
    and a1: "player1_alive g' =
               (is_valid_position_snake (cell_x (PyTuple 7 7)) (cell_y (PyTuple 7 7)) \<and>
                PyTuple 7 7 \<notin> set (PyTuple 7 6 # [PyTuple 7 5, PyTuple 7 4]) \<and>
                PyTuple 7 7 \<notin> set (PyTuple 7 8 # [PyTuple 7 9, PyTuple 7 10]))"
    and s1: "player1_snake g' =
               (if player1_alive g'
                then PyTuple 7 7 # (if PyTuple 7 7 \<in> set (food_positions facing_snakes)
                                    then PyTuple 7 6 # [PyTuple 7 5, PyTuple 7 4]
                                    else butlast (PyTuple 7 6 # [PyTuple 7 5, PyTuple 7 4]))
                else PyTuple 7 6 # [PyTuple 7 5, PyTuple 7 4])"
    and a2: "player2_alive g' =
               (is_valid_position_snake (cell_x (PyTuple 7 7)) (cell_y (PyTuple 7 7)) \<and>
                PyTuple 7 7 \<notin> set (PyTuple 7 8 # [PyTuple 7 9, PyTuple 7 10]) \<and>
                PyTuple 7 7 \<notin> set (player1_snake g'))"
    using tick_moves_first_then_second [OF h, of fives] by blast
  have p1: "player1_alive g'"
    using a1 by (simp add: is_valid_position_snake_def snake_board_height_def snake_board_width_def)
  have p2: "player1_snake g' = [PyTuple 7 7, PyTuple 7 6, PyTuple 7 5]"
    using s1 p1 f by simp
  have p3: "\<not> player2_alive g'"
    using a2 p2 by simp
  show ?thesis
    using h(1-3) u p1 p2 p3 by blast
qed

section \<open>The turn cap\<close>

lemma move_player_snake_keeps_turn:
  assumes "move_player_snake pid g r = Inr (res, g', r')"
  shows "turn_count g' = turn_count g"
proof (cases "pid \<noteq> player1_id g \<and> pid \<noteq> player2_id g")
  case True
  with assms show ?thesis by (simp add: move_player_snake_def)
next
  case valid: False
  let ?snake = "if pid = player1_id g then player1_snake g else player2_snake g"
  let ?dir = "if pid = player1_id g then player1_direction g else player2_direction g"
  show ?thesis
  proof (cases ?snake)
    case Nil
    with assms valid show ?thesis by (simp add: move_player_snake_def Let_def)
  next
    case (Cons h t)
    show ?thesis
    proof (cases "new_head_of ?dir h")
      case None
      with assms valid Cons show ?thesis by (simp add: move_player_snake_def Let_def)
    next
      case (Some nh)
      show ?thesis
      proof (cases "pid = player1_id g")
        case True
        with Cons Some have s: "player1_snake g = h # t"
          and n: "new_head_of (player1_direction g) h = Some nh" by simp_all
        from move_first_summary [OF s n, of r] assms True show ?thesis by auto
      next
        case False
        with valid have p: "pid = player2_id g" "player2_id g \<noteq> player1_id g" by auto
        with Cons Some have s: "player2_snake g = h # t"
          and n: "new_head_of (player2_direction g) h = Some nh" by simp_all
        from move_second_summary [OF p(2) s n, of r] assms p(1) show ?thesis by auto
      qed
    qed
  qed
qed

text \<open>Snake: a tick that starts with \<open>turn_count\<close> at 200 or more ends the game, and with
  the scores level it leaves no winner. \<open>check_game_over\<close> runs in every tick, before the
  count is raised.\<close>

lemma snake_cap_ends_game:
  assumes "\<not> game_over g" and "turn_count g \<ge> 200"
    and "update_game_state g r = Inr (res, g', r')"
  shows "game_over g' \<and> (player1_score g' = player2_score g' \<longrightarrow> winner g' = None)"
proof -
  obtain results1 g1 r1 where
    s1: "(if player1_alive g
          then (case move_player_snake (player1_id g) g r of
                  Inl e \<Rightarrow> Inl e
                | Inr (result1, g1, r1) \<Rightarrow> Inr ([''P1: '' @ message result1], g1, r1))
          else Inr ([], g, r)) = Inr (results1, g1, r1)"
    using assms(1,3) by (auto simp: update_game_state_def split: sum.splits)
  have t1: "turn_count g1 = turn_count g"
    using s1 by (auto split: if_splits sum.splits dest: move_player_snake_keeps_turn)
  obtain results g2 r2 where
    s2: "(if player2_alive g1
          then (case move_player_snake (player2_id g1) g1 r1 of
                  Inl e \<Rightarrow> Inl e
                | Inr (result2, g2, r2) \<Rightarrow> Inr (results1 @ [''P2: '' @ message result2], g2, r2))
          else Inr (results1, g1, r1)) = Inr (results, g2, r2)"
    using assms(1,3) s1 by (auto simp: update_game_state_def split: sum.splits)
  have t2: "turn_count g2 = turn_count g"
    using s2 t1 by (auto split: if_splits sum.splits dest: move_player_snake_keeps_turn)
  have g': "g' = (check_game_over_snake g2)\<lparr>turn_count := turn_count (check_game_over_snake g2) + 1\<rparr>"
    using assms(1,3) s1 s2 by (simp add: update_game_state_def Let_def)
  show ?thesis
    using t2 assms(2) by (simp add: g' check_game_over_snake_def Let_def tie_break_def)
qed

text \<open>The tick that raises the count from 199 to 200 does not end the game; the next one
  does.\<close>

lemma snake_tick_to_cap:
  "case update_game_state (calm_snake\<lparr>turn_count := 199\<rparr>) fives of
     Inl e \<Rightarrow> False
   | Inr (res, g, r) \<Rightarrow>
       turn_count g = 200 \<and> \<not> game_over g \<and>
       (case update_game_state g r of
          Inl e \<Rightarrow> False
        | Inr (res', g', r') \<Rightarrow> turn_count g' = 201 \<and> game_over g' \<and> winner g' = None)"
  by code_simp

text \<open>Ping Pong: a tick in which nobody scores does not look at the turn count. Here the
  count is 500, the scores are level, the ball moves from the centre, and the game goes on.\<close>

lemma pong_tick_at_cap:
  "update_ball (fresh_pong\<lparr>pong_turn_count := 500\<rparr>) level_serve =
     (reply True ''Ball moved'',
      fresh_pong\<lparr>pong_turn_count := 501, ball_x := 9\<rparr>, level_serve)"
  by (simp add: fresh_pong_value update_ball_def check_paddle_collision_def field_height_def
      field_width_def Let_def)

text \<open>
  Claim C4, at a new Ping Pong engine whose ball starts with velocity \<open>(-1, 0)\<close> and whose
  players never move. The claim says that ticking up to the cap of 500 with level scores
  ends the game with no winner. \<open>check_game_over\<close> is called only in the two branches of
  \<open>update_ball\<close> where a point is scored; here the ball goes from paddle to paddle, nobody
  scores, and after 501 ticks the count is 501, the score 0 to 0, and the game not over.
\<close>

theorem pong_rally_passes_cap:
  "case ticks_pong 501 fresh_pong level_serve of
     (g, r) \<Rightarrow>
       pong_turn_count g = 501 \<and> player1_score g = 0 \<and> player2_score g = 0 \<and>
       \<not> game_over g \<and> winner g = None \<and> rally_count g = 31"
  by code_simp

section \<open>Snapshots\<close>

lemma those_map_Some: "those (map Some xs) = Some xs"
  by (induction xs) simp_all

lemma as_str_list_json: "as_list as_str (JArr (map JStr sh)) = Some sh"
  by (simp add: comp_def those_map_Some)

lemma as_char_list_json: "as_list as_char (JArr (map (\<lambda>c. JStr [c]) row)) = Some row"
  by (simp add: comp_def those_map_Some)

lemma as_board_json: "as_board (board_json b) = Some b"
  by (simp add: as_board_def board_json_def comp_def those_map_Some)

lemma as_piece_json: "as_piece (piece_json p) = Some p"
  by (simp add: as_piece_def piece_json_def comp_def those_map_Some)

lemma as_pair_json: "as_pair (pair_json p) = Some p"
  by (simp add: pair_json_def)

lemma as_opt_int_json: "as_opt_int (opt_int_json w) = Some w"
  by (cases w) (simp_all add: opt_int_json_def)

lemma as_cell_json: "as_cell (cell_json c) = Some (as_loaded c)"
  by (simp add: as_cell_def cell_json_def as_loaded_def)

lemma as_cells_json: "as_list as_cell (JArr (map cell_json cs)) = Some (map as_loaded cs)"
proof -
  have "those (map (\<lambda>c. as_cell (cell_json c)) cs) = Some (map as_loaded cs)"
    by (induction cs) (simp_all add: as_cell_json)
  then show ?thesis
    by (simp add: comp_def)
qed

text \<open>Tetris and Ping Pong: the restored engine is the engine that was saved (for Ping
  Pong \<^verbatim>\<open>paddle_height\<close> is not saved; it is 3 in every engine the class builds). Equal
  engines answer every later call alike.\<close>

lemma roundtrip_tetris:
  "from_json_tetris (to_json_tetris g) r =
     Some (g, snd (reset_game_tetris (session_id g) (player1_id g) (player2_id g) r))"
  unfolding from_json_tetris_def to_json_tetris_def
  by (simp add: as_board_json as_piece_json as_pair_json as_opt_int_json reset_game_tetris_def
      split: prod.splits)

lemma roundtrip_pong:
  "paddle_height g = 3 \<Longrightarrow>
   from_json_pong (to_json_pong g) r =
     Some (g, snd (reset_game_pong (session_id g) (player1_id g) (player2_id g) r))"
  unfolding from_json_pong_def to_json_pong_def
  by (simp add: as_opt_int_json reset_game_pong_def split: prod.splits)

text \<open>Snake: the restored engine holds the saved cells as lists.\<close>

lemma reset_game_snake_keeps:
  "fst (reset_game_snake sid p1 p2 r) =
     \<lparr>session_id = sid, player1_id = p1, player2_id = p2,
      player1_score = 0, player2_score = 0, game_over = False, winner = None,
      player1_snake = [PyTuple 7 2, PyTuple 7 1, PyTuple 7 0],
      player2_snake = [PyTuple 7 12, PyTuple 7 13, PyTuple 7 14],
      player1_direction = ''right'', player2_direction = ''left'',
      player1_alive = True, player2_alive = True,
      food_positions = food_positions (fst (reset_game_snake sid p1 p2 r)), turn_count = 0\<rparr>"
proof -
  let ?g = "\<lparr>session_id = sid, player1_id = p1, player2_id = p2,
              player1_score = 0, player2_score = 0, game_over = False, winner = None,
              player1_snake = [PyTuple 7 2, PyTuple 7 1, PyTuple 7 0],
              player2_snake = [PyTuple 7 12, PyTuple 7 13, PyTuple 7 14],
              player1_direction = ''right'', player2_direction = ''left'',
              player1_alive = True, player2_alive = True,
              food_positions = [], turn_count = 0\<rparr>"
  obtain ok1 g1 r1 where a: "spawn_food ?g r = (ok1, g1, r1)"
    by (cases "spawn_food ?g r") auto
  obtain ok2 g2 r2 where b: "spawn_food g1 r1 = (ok2, g2, r2)"
    by (cases "spawn_food g1 r1") auto
  have "g2 = ?g\<lparr>food_positions := food_positions g2\<rparr>"
    using spawn_food_food_only [OF a] spawn_food_food_only [OF b]
    by (metis (no_types, lifting) snake_game.update_convs(7) snake_game.surjective)
  moreover have "fst (reset_game_snake sid p1 p2 r) = g2"
    using a b by (simp add: reset_game_snake_def)
  ultimately show ?thesis
    by simp
qed

lemma roundtrip_snake:
  "from_json_snake (to_json_snake g) r =
     Some (g\<lparr>player1_snake := map as_loaded (player1_snake g),
              player2_snake := map as_loaded (player2_snake g),
              food_positions := map as_loaded (food_positions g)\<rparr>,
           snd (reset_game_snake (session_id g) (player1_id g) (player2_id g) r))"
proof -
  obtain g0 r0 where e: "reset_game_snake (session_id g) (player1_id g) (player2_id g) r = (g0, r0)"
    by (cases "reset_game_snake (session_id g) (player1_id g) (player2_id g) r")
  have g0: "g0 =
     \<lparr>session_id = session_id g, player1_id = player1_id g, player2_id = player2_id g,
      player1_score = 0, player2_score = 0, game_over = False, winner = None,
      player1_snake = [PyTuple 7 2, PyTuple 7 1, PyTuple 7 0],
      player2_snake = [PyTuple 7 12, PyTuple 7 13, PyTuple 7 14],
      player1_direction = ''right'', player2_direction = ''left'',
      player1_alive = True, player2_alive = True,
      food_positions = food_positions g0, turn_count = 0\<rparr>"
    using reset_game_snake_keeps [of "session_id g" "player1_id g" "player2_id g" r] e by simp
  show ?thesis
    unfolding from_json_snake_def to_json_snake_def
    by (simp add: as_cells_json as_opt_int_json e del: as_list.simps) (subst g0, simp)
qed

text \<open>
  Claim C1, at a new Snake engine with food on the cell in front of player 1. The claim
  says that the restored engine and the original answer every later sequence of calls
  alike. The two engines write the same document, but the restored one holds its cells as
  lists, and \<^verbatim>\<open>new_head in self.food_positions\<close> compares a tuple with them. On the first
  tick, with the same random draws, the original eats the food (10 points, length 4) and
  the restored engine walks over it (0 points, length 3): the two results and the two
  documents after the tick differ.
\<close>

theorem restored_snake_diverges:
  "case from_json_snake (to_json_snake fresh_snake) fives of
     None \<Rightarrow> False
   | Some (restored, r0) \<Rightarrow>
       to_json_snake restored = to_json_snake fresh_snake \<and>
       (case (update_game_state fresh_snake fives, update_game_state restored fives) of
          (Inr (res, g, r), Inr (res', g', r')) \<Rightarrow>
            message res = ''P1: Moved and ate food (+10 points) | P2: Moved'' \<and>
            message res' = ''P1: Moved | P2: Moved'' \<and>
            player1_score g = 10 \<and> player1_score g' = 0 \<and>
            length (player1_snake g) = 4 \<and> length (player1_snake g') = 3 \<and>
            to_json_snake g \<noteq> to_json_snake g'
        | _ \<Rightarrow> False)"
  by code_simp

section \<open>Snake: turning back in two calls\<close>

lemma stepped_snake_reached:
  "case ticks_snake 1 calm_snake fives of Inl e \<Rightarrow> False | Inr (g, r) \<Rightarrow> g = stepped_snake"
  by code_simp






text \<open>In an engine restored from its snapshot the snake's cells are lists (see
  \<open>roundtrip_snake\<close>), the self check compares the tuple head with them and misses the
  second cell, and the same two calls and tick do move the snake backwards.\<close>

lemma restored_snake_walks_backwards:
  "case from_json_snake (to_json_snake stepped_snake) fives of
     None \<Rightarrow> False
   | Some (restored, r0) \<Rightarrow>
       (case move_snake 1 ''up'' restored of
          (ra, ga) \<Rightarrow>
            (case move_snake 1 ''left'' ga of
               (rb, gb) \<Rightarrow>
                 success ra \<and> success rb \<and> player1_direction gb = ''left'' \<and>
                 (case update_game_state gb fives of
                    Inl e \<Rightarrow> False
                  | Inr (res2, g2, r2) \<Rightarrow>
                      message res2 = ''P1: Moved | P2: Moved'' \<and>
                      player1_alive g2 \<and> \<not> game_over g2 \<and>
                      player1_snake g2 = [PyTuple 7 2, PyList 7 3, PyList 7 2])))"
  by code_simp

end
